theory Spec2Isabelle
  imports Complex_Main "HOL-Library.Sublist"
begin

section \<open>Strings\<close>

text \<open>
  Python strings are modelled as character lists. A character of HOL is one of the 256
  code points U+0000 .. U+00FF, so the model covers the texts whose characters lie in
  that range; \<open>str.lower\<close>, \<open>str.isspace\<close> and the regular expression class
  \<open>\d\<close> are written out for exactly these code points.
\<close>

definition newline :: char where
  "newline = CHR 0x0A"

text \<open>\<open>c.lower()\<close>: the letters A-Z and the upper-case letters of U+00C0 .. U+00DE
  (all but the multiplication sign U+00D7) move up by 32.\<close>

definition lower_char :: "char \<Rightarrow> char" where
  "lower_char c =
     (let n = (of_char c :: nat) in
      if (65 \<le> n \<and> n \<le> 90) \<or> (192 \<le> n \<and> n \<le> 222 \<and> n \<noteq> 215)
      then char_of (n + 32) else c)"

definition lower :: "string \<Rightarrow> string" where
  "lower s = map lower_char s"

text \<open>\<open>c.isspace()\<close>, which is also what \<open>str.strip()\<close> removes and what
  \<open>\s\<close> matches.\<close>

definition isspace :: "char \<Rightarrow> bool" where
  "isspace c =
     (let n = (of_char c :: nat) in
      (9 \<le> n \<and> n \<le> 13) \<or> (28 \<le> n \<and> n \<le> 32) \<or> n = 133 \<or> n = 160)"

text \<open>The class \<open>\d\<close>: of the code points below 256 only 0-9 are decimal digits.\<close>

definition isdigit :: "char \<Rightarrow> bool" where
  "isdigit c = (let n = (of_char c :: nat) in 48 \<le> n \<and> n \<le> 57)"

definition strip :: "string \<Rightarrow> string" where
  "strip s = rev (dropWhile isspace (rev (dropWhile isspace s)))"

definition startswith :: "string \<Rightarrow> string \<Rightarrow> bool" where
  "startswith s p = (take (length p) s = p)"

text \<open>\<open>sub in s\<close>.\<close>

fun str_contains :: "string \<Rightarrow> string \<Rightarrow> bool" where
  "str_contains sub [] = (sub = [])"
| "str_contains sub (c # cs) = (startswith (c # cs) sub \<or> str_contains sub cs)"

text \<open>
  \<open>s.split(sep)\<close> for a non-empty separator: the pieces between the occurrences of
  \<open>sep\<close>, found from the left without overlap. (Python raises ValueError on an empty
  separator; every separator of the program is a non-empty literal, and the model
  returns the text whole for the empty one.)
\<close>

function split_from :: "string \<Rightarrow> string \<Rightarrow> string \<Rightarrow> string list" where
  "split_from sep acc [] = [rev acc]"
| "split_from sep acc (c # cs) =
     (if sep \<noteq> [] \<and> startswith (c # cs) sep
      then rev acc # split_from sep [] (drop (length sep - 1) cs)
      else split_from sep (c # acc) cs)"
  by pat_completeness auto
termination
  by (relation "measure (\<lambda>(sep, acc, s). length s)") auto

definition split :: "string \<Rightarrow> string \<Rightarrow> string list" where
  "split s sep = split_from sep [] s"

text \<open>\<open>s.split("\n", 1)\<close>: at most one cut, at the first newline.\<close>

definition split_newline_once :: "string \<Rightarrow> string list" where
  "split_newline_once s =
     (case dropWhile (\<lambda>c. c \<noteq> newline) s of
        [] \<Rightarrow> [s]
      | _ # rest \<Rightarrow> [takeWhile (\<lambda>c. c \<noteq> newline) s, rest])"

text \<open>\<open>str(n)\<close> for an integer, as the f-strings render it.\<close>

definition digit_char :: "nat \<Rightarrow> char" where
  "digit_char d = ''0123456789'' ! d"

fun str_nat :: "nat \<Rightarrow> string" where
  "str_nat n =
     (if n < 10 then [digit_char n] else str_nat (n div 10) @ [digit_char (n mod 10)])"

declare str_nat.simps [simp del]

definition str_int :: "int \<Rightarrow> string" where
  "str_int i = (if i < 0 then CHR ''-'' # str_nat (nat (- i)) else str_nat (nat i))"

text \<open>\<open>int(text)\<close> of a run of decimal digits. (Python refuses a run longer than
  its limit for integer conversion, 4300 digits unless configured otherwise, with a
  ValueError; effect texts with such a run are outside the model.)\<close>

definition digit_value :: "char \<Rightarrow> int" where
  "digit_value c = int (of_char c) - 48"

definition int_of_digits :: "string \<Rightarrow> int" where
  "int_of_digits ds = foldl (\<lambda>a c. 10 * a + digit_value c) 0 ds"

text \<open>\<open>re.search(r'\d+', s)\<close>: the leftmost, longest run of digits; the result is
  the matched text (\<open>group()\<close>).\<close>

definition re_search_digits :: "string \<Rightarrow> string option" where
  "re_search_digits s =
     (case dropWhile (\<lambda>c. \<not> isdigit c) s of
        [] \<Rightarrow> None
      | d # rest \<Rightarrow> Some (d # takeWhile isdigit rest))"

text \<open>\<open>re.search(r'\+(\d+)', s)\<close>: the leftmost plus sign that a digit follows;
  the result is the digit run after it (\<open>group(1)\<close>).\<close>

fun re_search_plus_digits :: "string \<Rightarrow> string option" where
  "re_search_plus_digits [] = None"
| "re_search_plus_digits (c # cs) =
     (if c = CHR ''+'' \<and> cs \<noteq> [] \<and> isdigit (hd cs)
      then Some (takeWhile isdigit cs)
      else re_search_plus_digits cs)"

section \<open>Game state\<close>

text \<open>
  The dictionaries of the program have fixed keys and are records here; an entity
  record whose key is missing or whose value has another type than the one the code
  reads (a KeyError or AttributeError in Python) is outside the model.
\<close>

record item =
  i_name :: string
  i_type :: string
  i_effect :: string
  i_description :: string

record enemy =
  e_name :: string
  e_difficulty :: int
  e_health :: int
  e_attack :: int
  e_defense :: int
  e_description :: string

record location =
  l_name :: string
  l_type :: string
  l_description :: string

record character =
  c_name :: string
  c_role :: string
  c_description :: string

record plot =
  pl_title :: string
  pl_description :: string

record world =
  w_name :: string
  w_description :: string
  w_theme :: string
  plots :: "plot list"
  characters :: "character list"
  locations :: "location list"
  enemies :: "enemy list"
  items :: "item list"

record player =
  p_name :: string
  health :: int
  max_health :: int
  attack :: int
  defense :: int
  inventory :: "item list"
  skills :: "string list"

text \<open>
  The object \<open>self\<close>. \<open>stdout\<close> collects what the program writes: one element for
  each \<open>print\<close> call (its text without the final newline) and one for each prompt of
  \<open>input\<close>.
\<close>

record game =
  world_data :: world
  knowledge_base :: "string list"
  the_player :: player
  current_location :: string
  turn_count :: int
  in_combat :: bool
  current_enemy :: "enemy option"
  stdout :: "string list"

text \<open>The exceptions the modelled code can raise, and the result of an operation: it
  returns with a new state, or an exception leaves it with the state reached so far.\<close>

datatype error =
    TypeError_NoneType_not_subscriptable
  | TypeError_unexpected_keyword string
  | ValueError_empty_range
  | SystemExit

datatype outcome = Done game | Raised error game

definition and_then :: "outcome \<Rightarrow> (game \<Rightarrow> outcome) \<Rightarrow> outcome" where
  "and_then r f = (case r of Done g \<Rightarrow> f g | Raised e g \<Rightarrow> Raised e g)"

definition print_out :: "string \<Rightarrow> game \<Rightarrow> game" where
  "print_out s g = g\<lparr>stdout := stdout g @ [s]\<rparr>"

definition Colors_RED :: string where "Colors_RED = CHR 0x1B # ''[91m''"
definition Colors_GREEN :: string where "Colors_GREEN = CHR 0x1B # ''[92m''"
definition Colors_CYAN :: string where "Colors_CYAN = CHR 0x1B # ''[96m''"
definition Colors_GREY :: string where "Colors_GREY = CHR 0x1B # ''[90m''"
definition Colors_BOLD :: string where "Colors_BOLD = CHR 0x1B # ''[1m''"

section \<open>Knowledge log\<close>

definition format_event :: "game \<Rightarrow> string \<Rightarrow> string" where
  "format_event g event = ''Turn '' @ str_int (turn_count g) @ '': '' @ event"

definition add_to_knowledge_base :: "string \<Rightarrow> game \<Rightarrow> game" where
  "add_to_knowledge_base event g =
     (let formatted_event = format_event g event;
          kb = knowledge_base g @ [formatted_event]
      in g\<lparr>knowledge_base := (if length kb > 50 then drop (length kb - 50) kb else kb)\<rparr>)"

section \<open>Random draws and the narrative collaborator\<close>

text \<open>
  The draws of \<open>random\<close> are inputs of the model: one field for each place of the
  code that draws, read at most once in a turn. \<open>random.random()\<close> is a real number
  (the model compares it in exact arithmetic), the integer draws are natural numbers that
  \<open>randint\<close> and \<open>choice\<close> map into their range, so that every value of the
  range can be drawn.
\<close>

record draws =
  roll_attack :: nat
  roll_crit :: real
  roll_defend :: nat
  roll_flee :: real
  roll_flee_damage :: nat
  roll_enemy :: nat
  roll_reward :: real
  roll_lose :: real
  roll_lost_item :: nat
  roll_difficulty :: nat
  roll_location_type :: nat

text \<open>\<open>random.randint(a, b)\<close>: a value of \<open>a .. b\<close>; ValueError (here \<open>None\<close>)
  when the range is empty.\<close>

definition randint :: "int \<Rightarrow> int \<Rightarrow> nat \<Rightarrow> int option" where
  "randint a b r = (if b < a then None else Some (a + int (r mod nat (b - a + 1))))"

text \<open>\<open>random.choice(xs)\<close> for a non-empty list.\<close>

definition choice :: "'a list \<Rightarrow> nat \<Rightarrow> 'a" where
  "choice xs r = xs ! (r mod length xs)"

text \<open>
  What the call \<open>self.client.generate(...)\<close> does is an input as well: it returns a
  response whose text is given (\<open>response.get("response", "")\<close>), or raises
  \<open>ollama.ResponseError\<close> with an error text and a status code, or raises another
  exception with a message.
\<close>

datatype ai_reply =
    AI_Response string
  | AI_ResponseError string int
  | AI_Exception string

text \<open>The text after the first occurrence of \<open>sub\<close>.\<close>

fun after_first :: "string \<Rightarrow> string \<Rightarrow> string" where
  "after_first sub [] = []"
| "after_first sub (c # cs) =
     (if startswith (c # cs) sub then drop (length sub) (c # cs) else after_first sub cs)"

lemma length_after_first: "length (after_first sub s) \<le> length s"
  by (induction s) auto

lemma length_dropWhile_after_first:
  "length (dropWhile P (after_first sub (drop n cs))) < Suc (length cs)"
proof -
  have "length (dropWhile P (after_first sub (drop n cs))) \<le> length (after_first sub (drop n cs))"
    by (rule length_dropWhile_le)
  also have "\<dots> \<le> length (drop n cs)"
    by (rule length_after_first)
  also have "\<dots> \<le> length cs"
    by simp
  finally show ?thesis
    by simp
qed

text \<open>
  \<open>re.sub(r'<think>[\s\S]*?<\/think>\s*', '', text)\<close>: from the left, each
  \<open><think>\<close> that a \<open></think>\<close> follows is removed up to the first such end
  marker, together with the white space after it.
\<close>

function strip_think :: "string \<Rightarrow> string" where
  "strip_think [] = []"
| "strip_think (c # cs) =
     (if startswith (c # cs) ''<think>'' \<and> str_contains ''</think>'' (drop 6 cs)
      then strip_think (dropWhile isspace (after_first ''</think>'' (drop 6 cs)))
      else c # strip_think cs)"
  by pat_completeness auto
termination
  by (relation "measure length") (auto simp: length_dropWhile_after_first)

text \<open>
  \<open>generate_ai_response(self, prompt, system_prompt="")\<close>. \<open>keywords\<close> are the
  names of the keyword arguments of the call: Python binds them before the body runs and
  raises TypeError for a name that is no parameter, outside the \<open>try\<close> of the body.
  The body turns every failure of the collaborator into a text.
\<close>

definition generate_ai_response :: "string list \<Rightarrow> ai_reply \<Rightarrow> game \<Rightarrow> error + string \<times> game" where
  "generate_ai_response keywords reply g =
     (case find (\<lambda>k. k \<notin> set [''prompt'', ''system_prompt'']) keywords of
        Some k \<Rightarrow> Inl (TypeError_unexpected_keyword k)
      | None \<Rightarrow>
          (case reply of
             AI_Response text \<Rightarrow> Inr (strip_think text, g)
           | AI_ResponseError err code \<Rightarrow>
               Inr (''Error communicating with AI model: '' @ err,
                    print_out (''Status code: '' @ str_int code) (print_out (''Error: '' @ err) g))
           | AI_Exception msg \<Rightarrow>
               Inr (''Error communicating with AI model. Please ensure Ollama is running.'',
                    print_out (''Error: '' @ msg) g)))"

section \<open>Entity registry: combat start, item discovery, location change\<close>

definition synthesize_enemy :: "string \<Rightarrow> int \<Rightarrow> enemy" where
  "synthesize_enemy enemy_name difficulty =
     \<lparr>e_name = enemy_name, e_difficulty = difficulty, e_health = 20 * difficulty,
      e_attack = 5 + difficulty * 2, e_defense = 2 + difficulty,
      e_description = ''A mysterious '' @ enemy_name @ ''.''\<rparr>"

text \<open>The part of \<open>start_combat\<close> after the enemy is found or created: the combat
  state is set (the session holds its own copy of the record), the banner is printed and
  the encounter logged.\<close>

definition enter_combat :: "enemy \<Rightarrow> game \<Rightarrow> game" where
  "enter_combat e g =
     (let g1 = g\<lparr>in_combat := True, current_enemy := Some e\<rparr>;
          g2 = print_out (Colors_RED @ [newline] @ replicate 80 (CHR ''='')) g1;
          g3 = print_out (Colors_RED @ ''COMBAT: '' @ p_name (the_player g2) @ '' vs '' @ e_name e) g2;
          g4 = print_out (Colors_RED @ replicate 80 (CHR ''='')) g3;
          g5 = print_out (Colors_RED @ [newline] @ e_description e) g4;
          g6 = print_out (Colors_RED @ [newline] @ ''The '' @ e_name e @ '' looks ready for battle!'') g5;
          g7 = print_out (Colors_RED @ [newline] @ ''Enemy stats: Health: '' @ str_int (e_health e)
                 @ '', Attack: '' @ str_int (e_attack e) @ '', Defense: '' @ str_int (e_defense e)) g6
      in add_to_knowledge_base (''Encountered and fought '' @ e_name e) g7)"

definition start_combat :: "string \<Rightarrow> draws \<Rightarrow> game \<Rightarrow> outcome" where
  "start_combat enemy_name d g =
     (case find (\<lambda>e. lower (e_name e) = lower enemy_name) (enemies (world_data g)) of
        Some e \<Rightarrow> Done (enter_combat e g)
      | None \<Rightarrow>
          (case randint 1 (min 10 (turn_count g div 5 + 1)) (roll_difficulty d) of
             None \<Rightarrow> Raised ValueError_empty_range g
           | Some difficulty \<Rightarrow> Done (enter_combat (synthesize_enemy enemy_name difficulty) g)))"

definition synthesize_item :: "string \<Rightarrow> item" where
  "synthesize_item item_name =
     \<lparr>i_name = item_name, i_type = ''misc'', i_effect = ''Unknown'',
      i_description = ''A mysterious '' @ item_name @ ''.''\<rparr>"

definition find_item :: "string \<Rightarrow> game \<Rightarrow> game" where
  "find_item item_name g =
     (let found = find (\<lambda>i. lower (i_name i) = lower item_name) (items (world_data g));
          item = (case found of Some i \<Rightarrow> i | None \<Rightarrow> synthesize_item item_name);
          g1 = (case found of
                  Some i \<Rightarrow> g
                | None \<Rightarrow> g\<lparr>world_data := (world_data g)\<lparr>items := items (world_data g) @ [item]\<rparr>\<rparr>);
          g2 = g1\<lparr>the_player := (the_player g1)\<lparr>inventory := inventory (the_player g1) @ [item]\<rparr>\<rparr>;
          g3 = print_out (Colors_GREEN @ [newline] @ ''You found: '' @ i_name item @ '' - '' @ i_description item) g2
      in add_to_knowledge_base (''Found '' @ i_name item) g3)"

text \<open>The end of \<open>change_location\<close>: the message and the log entry.\<close>

definition announce_location :: "string \<Rightarrow> string \<Rightarrow> game \<Rightarrow> game" where
  "announce_location old_location location_name g =
     add_to_knowledge_base (''Traveled from '' @ old_location @ '' to '' @ location_name)
       (print_out (Colors_GREEN @ [newline] @ ''You have moved from '' @ old_location @ '' to ''
          @ location_name @ ''.'') g)"

text \<open>\<open>change_location\<close>: on a miss the description is asked of the collaborator by
  \<open>self.generate_ai_response(prompt, system_prompt, max_tokens=200)\<close>.\<close>

definition change_location :: "string \<Rightarrow> draws \<Rightarrow> ai_reply \<Rightarrow> game \<Rightarrow> outcome" where
  "change_location location_name d reply g =
     (let old_location = current_location g;
          g1 = g\<lparr>current_location := location_name\<rparr>
      in case find (\<lambda>loc. lower (l_name loc) = lower location_name) (locations (world_data g1)) of
           Some loc \<Rightarrow> Done (announce_location old_location location_name g1)
         | None \<Rightarrow>
             (let location_type =
                    choice [''settlement'', ''dungeon'', ''wilderness'', ''landmark''] (roll_location_type d)
              in case generate_ai_response [''max_tokens''] reply g1 of
                   Inl err \<Rightarrow> Raised err g1
                 | Inr (description, g2) \<Rightarrow>
                     (let location_details =
                            \<lparr>l_name = location_name, l_type = location_type, l_description = description\<rparr>;
                          g3 = g2\<lparr>world_data :=
                                  (world_data g2)\<lparr>locations := locations (world_data g2) @ [location_details]\<rparr>\<rparr>
                      in Done (announce_location old_location location_name g3))))"

section \<open>Directive interpreter\<close>

text \<open>\<open>parts[1].strip().split("\n")[0].strip()\<close>. \<open>parts ! 1\<close> is read only under
  the guard \<open>len(parts) > 1\<close>, and a split has at least one piece.\<close>

definition tag_payload :: "string list \<Rightarrow> string" where
  "tag_payload parts = strip (hd (split (strip (parts ! 1)) [newline]))"

definition process_response_tags :: "string \<Rightarrow> draws \<Rightarrow> ai_reply \<Rightarrow> game \<Rightarrow> outcome" where
  "process_response_tags response d reply g =
     and_then
       (if str_contains ''[COMBAT]'' response
        then (let parts = split response ''[COMBAT]''
              in if length parts > 1 then start_combat (tag_payload parts) d g else Done g)
        else Done g)
     (\<lambda>g. and_then
       (if str_contains ''[ITEM]'' response
        then (let parts = split response ''[ITEM]''
              in if length parts > 1 then Done (find_item (tag_payload parts) g) else Done g)
        else Done g)
     (\<lambda>g. and_then
       (if str_contains ''[LOCATION]'' response
        then (let parts = split response ''[LOCATION]''
              in if length parts > 1 then change_location (tag_payload parts) d reply g else Done g)
        else Done g)
     (\<lambda>g.
        if str_contains ''[EVENT]'' response
        then (let parts = split response ''[EVENT]''
              in if length parts > 1 then Done (add_to_knowledge_base (tag_payload parts) g) else Done g)
        else Done g)))"

text \<open>One round of the loop of \<open>remove_tags\<close>.\<close>

definition remove_tag :: "string \<Rightarrow> string \<Rightarrow> string" where
  "remove_tag text tag =
     (if str_contains tag text
      then (let parts = split text tag;
                parts' = (if length parts > 1 \<and> str_contains [newline] (parts ! 1)
                          then parts[1 := split_newline_once (parts ! 1) ! 1]
                          else parts)
            in concat parts')
      else text)"

definition remove_tags :: "string \<Rightarrow> string" where
  "remove_tags text = strip (foldl remove_tag text [''[COMBAT]'', ''[ITEM]'', ''[LOCATION]'', ''[EVENT]''])"

text \<open>
  \<open>process_player_action\<close>. The prompt is built from the state and sent to the
  collaborator; \<open>action_reply\<close> is what the collaborator does with it, and
  \<open>location_reply\<close> what it does if a location description is asked for.
\<close>

definition process_player_action :: "string \<Rightarrow> ai_reply \<Rightarrow> ai_reply \<Rightarrow> draws \<Rightarrow> game \<Rightarrow> outcome" where
  "process_player_action action action_reply location_reply d g =
     (let g1 = g\<lparr>turn_count := turn_count g + 1\<rparr>
      in case generate_ai_response [] action_reply g1 of
           Inl err \<Rightarrow> Raised err g1
         | Inr (response, g2) \<Rightarrow>
             and_then (process_response_tags response d location_reply g2)
               (\<lambda>g3. Done (print_out (Colors_GREEN @ [newline] @ remove_tags response) g3)))"

text \<open>
  \<open>exploration_turn\<close>. The screens (help, status, inventory, history) and
  \<open>quit_game\<close> write to the console and to the save file only; what they write is not
  recorded. \<open>quit_game\<close> ends with \<open>sys.exit(0)\<close>.
\<close>

definition exploration_turn :: "string \<Rightarrow> ai_reply \<Rightarrow> ai_reply \<Rightarrow> draws \<Rightarrow> game \<Rightarrow> outcome" where
  "exploration_turn action action_reply location_reply d g =
     (let g1 = print_out (Colors_CYAN @ [newline] @ ''What would you like to do? > '') g
      in if lower action \<in> set [''quit'', ''exit'', ''q''] then Raised SystemExit g1
         else if lower action \<in> set [''help'', ''h'', ''?''] then Done g1
         else if lower action \<in> set [''status'', ''stats'', ''stat''] then Done g1
         else if lower action \<in> set [''inventory'', ''inv'', ''i''] then Done g1
         else if lower action \<in> set [''history'', ''events'', ''kb''] then Done g1
         else process_player_action action action_reply location_reply d g1)"

section \<open>Items\<close>

text \<open>The index of the first inventory entry with the given name, compared in lower
  case (the \<open>enumerate\<close> loop of \<open>use_item\<close>).\<close>

fun item_index_from :: "nat \<Rightarrow> string \<Rightarrow> item list \<Rightarrow> nat option" where
  "item_index_from k item_name [] = None"
| "item_index_from k item_name (i # rest) =
     (if lower (i_name i) = lower item_name then Some k
      else item_index_from (Suc k) item_name rest)"

text \<open>\<open>xs.pop(k)\<close> for an index in range.\<close>

definition pop_at :: "nat \<Rightarrow> 'a list \<Rightarrow> 'a list" where
  "pop_at k xs = take k xs @ drop (Suc k) xs"

text \<open>\<open>int(amount_match.group()) if amount_match else 20\<close> with
  \<open>amount_match = re.search(r'\d+', effect)\<close>.\<close>

definition parse_heal_amount :: "string \<Rightarrow> int" where
  "parse_heal_amount effect =
     (case re_search_digits effect of Some ds \<Rightarrow> int_of_digits ds | None \<Rightarrow> 20)"

text \<open>\<open>int(bonus_match.group(1)) if bonus_match else fallback\<close> with
  \<open>bonus_match = re.search(r'\+(\d+)', effect)\<close>; the fallback is 5 for a weapon and
  3 for armor.\<close>

definition parse_bonus :: "int \<Rightarrow> string \<Rightarrow> int" where
  "parse_bonus fallback effect =
     (case re_search_plus_digits effect of Some ds \<Rightarrow> int_of_digits ds | None \<Rightarrow> fallback)"

definition set_health :: "int \<Rightarrow> game \<Rightarrow> game" where
  "set_health h g = g\<lparr>the_player := (the_player g)\<lparr>health := h\<rparr>\<rparr>"

definition use_item :: "string \<Rightarrow> game \<Rightarrow> game" where
  "use_item item_name g =
     (case item_index_from 0 item_name (inventory (the_player g)) of
        None \<Rightarrow>
          print_out (Colors_RED @ [newline] @ ''You don't have a '' @ item_name @ '' in your inventory.'') g
      | Some item_index \<Rightarrow>
          (let item = inventory (the_player g) ! item_index in
           if lower (i_type item) = ''consumable'' then
             (let g1 = g\<lparr>the_player :=
                         (the_player g)\<lparr>inventory := pop_at item_index (inventory (the_player g))\<rparr>\<rparr>
              in if str_contains ''heal'' (lower (i_effect item)) \<or> str_contains ''health'' (lower (i_effect item))
                 then
                   (let heal_amount = parse_heal_amount (i_effect item);
                        old_health = health (the_player g1);
                        g2 = set_health (min (max_health (the_player g1)) (health (the_player g1) + heal_amount)) g1;
                        actual_heal = health (the_player g2) - old_health
                    in print_out (Colors_GREEN @ [newline] @ ''You used '' @ i_name item @ '' and recovered ''
                         @ str_int actual_heal @ '' health!'') g2)
                 else print_out (Colors_GREEN @ [newline] @ ''You used '' @ i_name item @ ''. '' @ i_effect item) g1)
           else if lower (i_type item) = ''weapon'' then
             (let g1 = print_out (Colors_GREEN @ [newline] @ ''You equip the '' @ i_name item @ ''.'') g;
                  attack_bonus = parse_bonus 5 (i_effect item);
                  old_attack = attack (the_player g1);
                  g2 = g1\<lparr>the_player := (the_player g1)\<lparr>attack := attack (the_player g1) + attack_bonus\<rparr>\<rparr>
              in print_out (Colors_GREEN @ ''Your attack increases from '' @ str_int old_attack @ '' to ''
                   @ str_int (attack (the_player g2)) @ ''!'') g2)
           else if lower (i_type item) = ''armor'' then
             (let g1 = print_out ([newline] @ ''You equip the '' @ i_name item @ ''.'') g;
                  defense_bonus = parse_bonus 3 (i_effect item);
                  old_defense = defense (the_player g1);
                  g2 = g1\<lparr>the_player := (the_player g1)\<lparr>defense := defense (the_player g1) + defense_bonus\<rparr>\<rparr>
              in print_out (Colors_GREEN @ ''Your defense increases from '' @ str_int old_defense @ '' to ''
                   @ str_int (defense (the_player g2)) @ ''!'') g2)
           else print_out (Colors_GREEN @ [newline] @ ''You use '' @ i_name item @ ''. Nothing obvious happens.'') g))"

section \<open>Combat state machine\<close>

text \<open>\<open>self.current_enemy[...]\<close>: a TypeError when no enemy is set.\<close>

definition with_enemy :: "game \<Rightarrow> (enemy \<Rightarrow> outcome) \<Rightarrow> outcome" where
  "with_enemy g f =
     (case current_enemy g of
        None \<Rightarrow> Raised TypeError_NoneType_not_subscriptable g
      | Some e \<Rightarrow> f e)"

definition player_attack :: "draws \<Rightarrow> game \<Rightarrow> outcome" where
  "player_attack d g =
     (case randint (attack (the_player g) div 2) (attack (the_player g)) (roll_attack d) of
        None \<Rightarrow> Raised ValueError_empty_range g
      | Some base_damage \<Rightarrow>
          with_enemy g (\<lambda>e.
            let damage = max 1 (base_damage - e_defense e div 2);
                e1 = e\<lparr>e_health := e_health e - damage\<rparr>;
                g1 = print_out (Colors_RED @ [newline] @ ''You attack the '' @ e_name e1 @ '' for ''
                       @ str_int damage @ '' damage!'') (g\<lparr>current_enemy := Some e1\<rparr>)
            in if roll_crit d < 0.25
               then (let crit_damage = damage div 2;
                         e2 = e1\<lparr>e_health := e_health e1 - crit_damage\<rparr>
                     in Done (print_out (Colors_RED @ Colors_BOLD @ ''Critical hit! +'' @ str_int crit_damage
                          @ '' bonus damage!'') (g1\<lparr>current_enemy := Some e2\<rparr>)))
               else Done g1))"

definition enemy_attack :: "draws \<Rightarrow> game \<Rightarrow> outcome" where
  "enemy_attack d g =
     with_enemy g (\<lambda>e.
       case randint (e_attack e div 2) (e_attack e) (roll_enemy d) of
         None \<Rightarrow> Raised ValueError_empty_range g
       | Some base_damage \<Rightarrow>
           (let damage = max 1 (base_damage - defense (the_player g) div 2);
                g1 = set_health (health (the_player g) - damage) g
            in Done (print_out (Colors_RED @ [newline] @ ''The '' @ e_name e @ '' attacks you for ''
                 @ str_int damage @ '' damage!'') g1)))"

definition player_defend :: "draws \<Rightarrow> game \<Rightarrow> outcome" where
  "player_defend d g =
     (let temp_defense = defense (the_player g) div 2;
          g1 = g\<lparr>the_player := (the_player g)\<lparr>defense := defense (the_player g) + temp_defense\<rparr>\<rparr>;
          heal_amount = max_health (the_player g1) div 20;
          g2 = set_health (min (max_health (the_player g1)) (health (the_player g1) + heal_amount)) g1;
          g3 = print_out (Colors_RED @ [newline] @ ''You take a defensive stance, increasing your defense by ''
                 @ str_int temp_defense @ ''.'') g2;
          g4 = print_out (Colors_RED @ ''You recover '' @ str_int heal_amount @ '' health.'') g3
      in with_enemy g4 (\<lambda>e.
           case randint (e_attack e div 3) (e_attack e div 2) (roll_defend d) of
             None \<Rightarrow> Raised ValueError_empty_range g4
           | Some base_damage \<Rightarrow>
               (let damage = max 1 (base_damage - defense (the_player g4) div 2);
                    g5 = set_health (health (the_player g4) - damage) g4;
                    g6 = print_out (Colors_RED @ ''The '' @ e_name e @ '' attacks, but you block most of it! ''
                           @ str_int damage @ '' damage taken.'') g5
                in Done (g6\<lparr>the_player := (the_player g6)\<lparr>defense := defense (the_player g6) - temp_defense\<rparr>\<rparr>))))"

text \<open>
  \<open>attempt_flee\<close>. On success the code clears \<open>self.current_enemy\<close> and then builds
  the log entry from \<open>self.current_enemy['name']\<close>.
\<close>

definition attempt_flee :: "draws \<Rightarrow> game \<Rightarrow> outcome" where
  "attempt_flee d g =
     (let flee_chance = 0.6 + real_of_int (turn_count g) / 100
      in if roll_flee d < flee_chance
         then with_enemy g (\<lambda>e.
                let g1 = print_out (Colors_RED @ [newline] @ ''You successfully escape from the '' @ e_name e @ ''!'') g;
                    g2 = g1\<lparr>in_combat := False\<rparr>;
                    g3 = g2\<lparr>current_enemy := None\<rparr>
                in with_enemy g3 (\<lambda>e'.
                     Done (add_to_knowledge_base (''Fled from combat with '' @ e_name e') g3)))
         else with_enemy g (\<lambda>e.
                let g1 = print_out (Colors_RED @ [newline] @ ''You fail to escape! The '' @ e_name e
                           @ '' attacks while you're vulnerable!'') g
                in case randint (e_attack e div 2) (e_attack e) (roll_flee_damage d) of
                     None \<Rightarrow> Raised ValueError_empty_range g1
                   | Some base_damage \<Rightarrow>
                       (let damage = max 2 (base_damage - defense (the_player g1) div 3);
                            g2 = set_health (health (the_player g1) - damage) g1
                        in Done (print_out (Colors_RED @ ''You take '' @ str_int damage @ '' damage!'') g2))))"

definition generate_combat_reward :: "game \<Rightarrow> game" where
  "generate_combat_reward g =
     (let item = \<lparr>i_name = ''Health Potion'', i_type = ''consumable'', i_effect = ''Restores 50 health'',
                  i_description = ''A small vial containing a red liquid that heals wounds.''\<rparr>;
          g1 = g\<lparr>the_player := (the_player g)\<lparr>inventory := inventory (the_player g) @ [item]\<rparr>\<rparr>
      in print_out (Colors_GREEN @ [newline] @ ''You found: '' @ i_name item @ '' - '' @ i_description item) g1)"

text \<open>The end of \<open>resolve_combat\<close>: the combat state is reset and the player asked to
  press Enter.\<close>

definition leave_combat :: "game \<Rightarrow> game" where
  "leave_combat g =
     print_out (Colors_GREY @ [newline] @ ''Press Enter to continue...'')
       (g\<lparr>in_combat := False, current_enemy := None\<rparr>)"

definition resolve_combat :: "bool \<Rightarrow> draws \<Rightarrow> game \<Rightarrow> outcome" where
  "resolve_combat player_won d g =
     (if player_won
      then with_enemy g (\<lambda>e.
             let g1 = print_out (Colors_GREEN @ [newline] @ ''You defeated the '' @ e_name e @ ''!'') g;
                 g2 = (if roll_reward d < 0.6 then generate_combat_reward g1 else g1);
                 heal_amount = max_health (the_player g2) div 10;
                 g3 = set_health (min (max_health (the_player g2)) (health (the_player g2) + heal_amount)) g2;
                 g4 = print_out (Colors_GREEN @ ''You recover '' @ str_int heal_amount @ '' health after the battle.'') g3;
                 g5 = add_to_knowledge_base (''Defeated '' @ e_name e @ '' in combat'') g4
             in Done (leave_combat g5))
      else
        (let g1 = print_out (Colors_RED @ [newline] @ ''You have been defeated...'') g;
             g2 = print_out (Colors_RED @ [newline] @ ''As consciousness fades, a mysterious force intervenes...'') g1;
             g3 = set_health (max_health (the_player g2) div 4) g2;
             g4 = (if inventory (the_player g3) \<noteq> [] \<and> roll_lose d < 0.5
                   then (let lost_item = choice (inventory (the_player g3)) (roll_lost_item d);
                             g3' = g3\<lparr>the_player :=
                                      (the_player g3)\<lparr>inventory := remove1 lost_item (inventory (the_player g3))\<rparr>\<rparr>
                         in print_out ([newline] @ ''You lost your '' @ i_name lost_item @ '' in the battle!'') g3')
                   else g3);
             g5 = print_out (Colors_RED @ [newline] @ ''You awaken, weakened but alive.'') g4
         in with_enemy g5 (\<lambda>e.
              Done (leave_combat
                (add_to_knowledge_base (''Was defeated by '' @ e_name e @ '' but mysteriously revived'') g5)))))"

text \<open>The player's action of a combat turn, by the text typed; \<open>None\<close> is the branch
  of an invalid action.\<close>

definition combat_action :: "string \<Rightarrow> draws \<Rightarrow> game \<Rightarrow> outcome option" where
  "combat_action action d g =
     (if lower action \<in> set [''attack'', ''a''] then Some (player_attack d g)
      else if startswith (lower action) ''use '' then Some (Done (use_item (strip (drop 4 action)) g))
      else if lower action \<in> set [''defend'', ''d''] then Some (player_defend d g)
      else if lower action \<in> set [''flee'', ''f'', ''run''] then Some (attempt_flee d g)
      else None)"

text \<open>The rest of \<open>combat_turn\<close> after the player's action: the victory check, the
  enemy's turn, the defeat check.\<close>

definition after_player_action :: "draws \<Rightarrow> game \<Rightarrow> outcome" where
  "after_player_action d g =
     with_enemy g (\<lambda>e.
       if e_health e \<le> 0 then resolve_combat True d g
       else and_then (enemy_attack d g)
              (\<lambda>g1. if health (the_player g1) \<le> 0 then resolve_combat False d g1 else Done g1))"

definition combat_turn :: "string \<Rightarrow> draws \<Rightarrow> game \<Rightarrow> outcome" where
  "combat_turn action d g =
     (let g1 = print_out (Colors_RED @ [newline] @ replicate 40 (CHR ''-'')) g;
          g2 = print_out (Colors_RED @ ''YOUR HEALTH: '' @ str_int (health (the_player g1)) @ ''/''
                 @ str_int (max_health (the_player g1))) g1
      in with_enemy g2 (\<lambda>e.
           let g3 = print_out (Colors_RED @ ''ENEMY HEALTH: '' @ str_int (e_health e)) g2;
               g4 = print_out (Colors_RED @ replicate 40 (CHR ''-'')) g3;
               g5 = print_out (Colors_GREY @ [newline] @ ''Combat options: attack, use [item], defend, flee'') g4;
               g6 = print_out (Colors_BOLD @ ''What will you do? > '') g5
           in case combat_action action d g6 of
                None \<Rightarrow> Done (print_out (Colors_RED @ ''Invalid combat action. Try again.'') g6)
              | Some r \<Rightarrow> and_then r (after_player_action d)))"

text \<open>What one round of \<open>game_loop\<close> takes from outside: the line the player
  types, what the collaborator does, and the draws.\<close>

record turn_input =
  typed :: string
  action_reply :: ai_reply
  location_reply :: ai_reply
  rolls :: draws

definition game_loop_step :: "turn_input \<Rightarrow> game \<Rightarrow> outcome" where
  "game_loop_step i g =
     (if in_combat g then combat_turn (typed i) (rolls i) g
      else exploration_turn (typed i) (action_reply i) (location_reply i) (rolls i) g)"

text \<open>\<open>game_loop\<close> over a finite list of rounds: the \<open>while True\<close> loop stops only
  by an exception, which ends the run here as well.\<close>

fun game_loop :: "turn_input list \<Rightarrow> game \<Rightarrow> outcome" where
  "game_loop [] g = Done g"
| "game_loop (i # rest) g = and_then (game_loop_step i g) (game_loop rest)"

text \<open>Consecutive combat turns, as the loop runs them during an encounter.\<close>

fun combat_turns :: "(string \<times> draws) list \<Rightarrow> game \<Rightarrow> outcome" where
  "combat_turns [] g = Done g"
| "combat_turns ((action, d) # rest) g = and_then (combat_turn action d g) (combat_turns rest)"

text \<open>The state an outcome ends in, and whether it is a normal return.\<close>

fun outcome_game :: "outcome \<Rightarrow> game" where
  "outcome_game (Done g) = g"
| "outcome_game (Raised e g) = g"

fun returns :: "outcome \<Rightarrow> bool" where
  "returns (Done g) = True"
| "returns (Raised e g) = False"

text \<open>The state \<open>__init__\<close> builds.\<close>

definition initial_game :: game where
  "initial_game =
     \<lparr>world_data = \<lparr>w_name = [], w_description = [], w_theme = [], plots = [], characters = [],
                    locations = [], enemies = [], items = []\<rparr>,
      knowledge_base = [],
      the_player = \<lparr>p_name = [], health = 100, max_health = 100, attack = 10, defense = 5,
                    inventory = [], skills = []\<rparr>,
      current_location = [],
      turn_count = 0,
      in_combat = False,
      current_enemy = None,
      stdout = []\<rparr>"

text \<open>The state when the game loop starts: \<open>setup_game\<close> has filled in the
  player's name, the world and the first location.\<close>

definition new_session :: "world \<Rightarrow> string \<Rightarrow> string \<Rightarrow> game" where
  "new_session w player_name start_location =
     initial_game\<lparr>world_data := w,
                  the_player := (the_player initial_game)\<lparr>p_name := player_name\<rparr>,
                  current_location := start_location\<rparr>"

section \<open>Example states\<close>

definition example_draws :: draws where
  "example_draws =
     \<lparr>roll_attack = 0, roll_crit = 0.9, roll_defend = 2, roll_flee = 0.1, roll_flee_damage = 0,
      roll_enemy = 5, roll_reward = 0.9, roll_lose = 0.9, roll_lost_item = 0,
      roll_difficulty = 2, roll_location_type = 0\<rparr>"

definition example_wolf :: enemy where
  "example_wolf =
     \<lparr>e_name = ''Wolf'', e_difficulty = 1, e_health = 50, e_attack = 10, e_defense = 0,
      e_description = ''A grey wolf.''\<rparr>"

text \<open>A fresh player in combat with the wolf.\<close>

definition example_fight :: game where
  "example_fight = initial_game\<lparr>in_combat := True, current_enemy := Some example_wolf\<rparr>"

text \<open>An enemy template with no health left and a heavy attack.\<close>

definition example_ghost :: enemy where
  "example_ghost =
     \<lparr>e_name = ''Ghost'', e_difficulty = 10, e_health = 0, e_attack = 1000, e_defense = 0,
      e_description = ''A fading ghost.''\<rparr>"

definition example_world :: "enemy list \<Rightarrow> world" where
  "example_world es =
     \<lparr>w_name = ''Realm'', w_description = ''A realm.'', w_theme = ''Fantasy'', plots = [],
      characters = [],
      locations = [\<lparr>l_name = ''Starting Village'', l_type = ''settlement'',
                    l_description = ''A small village on the edge of the wilderness.''\<rparr>],
      enemies = es, items = []\<rparr>"

text \<open>A wounded player (health 30 of 100) carrying a potion, a sword and a shield.\<close>

definition example_potion :: item where
  "example_potion =
     \<lparr>i_name = ''Potion'', i_type = ''consumable'', i_effect = ''Heal 50 health'',
      i_description = ''A red potion.''\<rparr>"

definition example_sword :: item where
  "example_sword =
     \<lparr>i_name = ''Sword'', i_type = ''Weapon'', i_effect = ''+7 damage'',
      i_description = ''A sharp sword.''\<rparr>"

definition example_shield :: item where
  "example_shield =
     \<lparr>i_name = ''Shield'', i_type = ''armor'', i_effect = ''Boost 3'',
      i_description = ''A wooden shield.''\<rparr>"

definition example_pack :: game where
  "example_pack =
     initial_game\<lparr>the_player := (the_player initial_game)
       \<lparr>health := 30, inventory := [example_potion, example_sword, example_shield]\<rparr>\<rparr>"

definition example_round :: "string \<Rightarrow> string \<Rightarrow> turn_input" where
  "example_round line response =
     \<lparr>typed = line, action_reply = AI_Response response, location_reply = AI_Response ''A place.'',
      rolls = example_draws\<rparr>"

section \<open>State predicates\<close>

definition health_in_range :: "game \<Rightarrow> bool" where
  "health_in_range g =
     (0 \<le> health (the_player g) \<and> health (the_player g) \<le> max_health (the_player g))"

text \<open>Every enemy template of the registry has positive health.\<close>

definition templates_alive :: "game \<Rightarrow> bool" where
  "templates_alive g = list_all (\<lambda>e. 0 < e_health e) (enemies (world_data g))"

text \<open>While in combat there is an enemy, and its health is positive.\<close>

definition encounter_alive :: "game \<Rightarrow> bool" where
  "encounter_alive g =
     (if in_combat g
      then (case current_enemy g of Some e \<Rightarrow> 0 < e_health e | None \<Rightarrow> False)
      else True)"

definition session_ok :: "game \<Rightarrow> bool" where
  "session_ok g = (health_in_range g \<and> templates_alive g \<and> encounter_alive g)"

section \<open>Properties\<close>

subsection \<open>Knowledge log\<close>

lemma add_to_knowledge_base_eq:
  "knowledge_base (add_to_knowledge_base event g) =
     drop (length (knowledge_base g) + 1 - 50) (knowledge_base g @ [format_event g event])"
  by (simp add: add_to_knowledge_base_def Let_def)

lemma add_to_knowledge_base_frame:
  "world_data (add_to_knowledge_base event g) = world_data g"
  "the_player (add_to_knowledge_base event g) = the_player g"
  "current_location (add_to_knowledge_base event g) = current_location g"
  "turn_count (add_to_knowledge_base event g) = turn_count g"
  "in_combat (add_to_knowledge_base event g) = in_combat g"
  "current_enemy (add_to_knowledge_base event g) = current_enemy g"
  "stdout (add_to_knowledge_base event g) = stdout g"
  by (simp_all add: add_to_knowledge_base_def Let_def)

text \<open>
  C8. After an insertion the log holds at most 50 entries, whatever it held before; it
  is the log with the new entry appended, cut from the front (the oldest entries go
  first, the order of the others is kept: it is a suffix of the appended log); and the
  newly inserted entry is its last element.
\<close>

theorem knowledge_base_bounded_fifo:
  "length (knowledge_base (add_to_knowledge_base event g)) \<le> 50 \<and>
   knowledge_base (add_to_knowledge_base event g) =
     drop (length (knowledge_base g @ [format_event g event]) - 50)
       (knowledge_base g @ [format_event g event]) \<and>
   suffix (knowledge_base (add_to_knowledge_base event g))
     (knowledge_base g @ [format_event g event]) \<and>
   knowledge_base (add_to_knowledge_base event g) \<noteq> [] \<and>
   last (knowledge_base (add_to_knowledge_base event g)) = format_event g event"
proof -
  let ?new = "knowledge_base g @ [format_event g event]"
  let ?k = "length ?new - 50"
  have eq: "knowledge_base (add_to_knowledge_base event g) = drop ?k ?new"
    by (simp add: add_to_knowledge_base_def Let_def)
  have len: "length (drop ?k ?new) \<le> 50"
    by simp
  have suf: "suffix (drop ?k ?new) ?new"
    by (rule suffix_drop)
  have lt: "?k < length ?new"
    by simp
  then have ne: "drop ?k ?new \<noteq> []"
    by simp
  have "last (drop ?k ?new) = last ?new"
    using lt by (rule last_drop)
  then have la: "last (drop ?k ?new) = format_event g event"
    by simp
  show ?thesis
    unfolding eq using len suf ne la by blast
qed

subsection \<open>Frame lemmas\<close>

lemma print_out_frame [simp]:
  "world_data (print_out s g) = world_data g"
  "knowledge_base (print_out s g) = knowledge_base g"
  "the_player (print_out s g) = the_player g"
  "current_location (print_out s g) = current_location g"
  "turn_count (print_out s g) = turn_count g"
  "in_combat (print_out s g) = in_combat g"
  "current_enemy (print_out s g) = current_enemy g"
  "stdout (print_out s g) = stdout g @ [s]"
  by (simp_all add: print_out_def)

lemma set_health_frame [simp]:
  "world_data (set_health h g) = world_data g"
  "knowledge_base (set_health h g) = knowledge_base g"
  "the_player (set_health h g) = (the_player g)\<lparr>health := h\<rparr>"
  "current_location (set_health h g) = current_location g"
  "turn_count (set_health h g) = turn_count g"
  "in_combat (set_health h g) = in_combat g"
  "current_enemy (set_health h g) = current_enemy g"
  "stdout (set_health h g) = stdout g"
  by (simp_all add: set_health_def)

lemma leave_combat_frame [simp]:
  "world_data (leave_combat g) = world_data g"
  "knowledge_base (leave_combat g) = knowledge_base g"
  "the_player (leave_combat g) = the_player g"
  "current_location (leave_combat g) = current_location g"
  "turn_count (leave_combat g) = turn_count g"
  "in_combat (leave_combat g) = False"
  "current_enemy (leave_combat g) = None"
  by (simp_all add: leave_combat_def)

lemma enter_combat_frame [simp]:
  "world_data (enter_combat e g) = world_data g"
  "the_player (enter_combat e g) = the_player g"
  "current_location (enter_combat e g) = current_location g"
  "turn_count (enter_combat e g) = turn_count g"
  "in_combat (enter_combat e g) = True"
  "current_enemy (enter_combat e g) = Some e"
  by (simp_all add: enter_combat_def Let_def add_to_knowledge_base_frame)

lemma generate_combat_reward_frame [simp]:
  "world_data (generate_combat_reward g) = world_data g"
  "knowledge_base (generate_combat_reward g) = knowledge_base g"
  "current_location (generate_combat_reward g) = current_location g"
  "turn_count (generate_combat_reward g) = turn_count g"
  "in_combat (generate_combat_reward g) = in_combat g"
  "current_enemy (generate_combat_reward g) = current_enemy g"
  "health (the_player (generate_combat_reward g)) = health (the_player g)"
  "max_health (the_player (generate_combat_reward g)) = max_health (the_player g)"
  by (simp_all add: generate_combat_reward_def Let_def)

lemma find_item_frame [simp]:
  "knowledge_base (find_item nm g) \<noteq> []"
  "current_location (find_item nm g) = current_location g"
  "turn_count (find_item nm g) = turn_count g"
  "in_combat (find_item nm g) = in_combat g"
  "current_enemy (find_item nm g) = current_enemy g"
  "health (the_player (find_item nm g)) = health (the_player g)"
  "max_health (the_player (find_item nm g)) = max_health (the_player g)"
  "enemies (world_data (find_item nm g)) = enemies (world_data g)"
  "locations (world_data (find_item nm g)) = locations (world_data g)"
  by (simp_all add: find_item_def Let_def add_to_knowledge_base_frame add_to_knowledge_base_def
      split: option.splits)

lemma announce_location_frame [simp]:
  "world_data (announce_location old new g) = world_data g"
  "the_player (announce_location old new g) = the_player g"
  "current_location (announce_location old new g) = current_location g"
  "turn_count (announce_location old new g) = turn_count g"
  "in_combat (announce_location old new g) = in_combat g"
  "current_enemy (announce_location old new g) = current_enemy g"
  by (simp_all add: announce_location_def add_to_knowledge_base_frame)

lemma use_item_frame [simp]:
  "world_data (use_item nm g) = world_data g"
  "knowledge_base (use_item nm g) = knowledge_base g"
  "current_location (use_item nm g) = current_location g"
  "turn_count (use_item nm g) = turn_count g"
  "in_combat (use_item nm g) = in_combat g"
  "current_enemy (use_item nm g) = current_enemy g"
  "max_health (the_player (use_item nm g)) = max_health (the_player g)"
  by (simp_all add: use_item_def Let_def split: option.splits)

lemma generate_ai_response_frame:
  "generate_ai_response ks reply g = Inr (text, g') \<Longrightarrow>
     world_data g' = world_data g \<and> knowledge_base g' = knowledge_base g \<and>
     the_player g' = the_player g \<and> current_location g' = current_location g \<and>
     turn_count g' = turn_count g \<and> in_combat g' = in_combat g \<and>
     current_enemy g' = current_enemy g"
  by (auto simp: generate_ai_response_def split: option.splits ai_reply.splits)

subsection \<open>Turn counter\<close>

lemma turn_count_with_enemy:
  "turn_count g = t \<Longrightarrow> (\<And>e. turn_count (outcome_game (f e)) = t) \<Longrightarrow>
   turn_count (outcome_game (with_enemy g f)) = t"
  by (simp add: with_enemy_def split: option.splits)

lemma turn_count_and_then:
  "turn_count (outcome_game r) = t \<Longrightarrow>
   (\<And>g'. turn_count g' = t \<Longrightarrow> turn_count (outcome_game (f g')) = t) \<Longrightarrow>
   turn_count (outcome_game (and_then r f)) = t"
  by (cases r) (simp_all add: and_then_def)

lemma turn_count_player_attack:
  "turn_count (outcome_game (player_attack d g)) = turn_count g"
  by (simp add: player_attack_def with_enemy_def Let_def split: option.splits)

lemma turn_count_enemy_attack:
  "turn_count (outcome_game (enemy_attack d g)) = turn_count g"
  by (simp add: enemy_attack_def with_enemy_def Let_def split: option.splits)

lemma turn_count_player_defend:
  "turn_count (outcome_game (player_defend d g)) = turn_count g"
  by (simp add: player_defend_def with_enemy_def Let_def split: option.splits)

lemma turn_count_attempt_flee:
  "turn_count (outcome_game (attempt_flee d g)) = turn_count g"
  by (simp add: attempt_flee_def with_enemy_def Let_def add_to_knowledge_base_frame
      split: option.splits)

lemma turn_count_resolve_combat:
  "turn_count (outcome_game (resolve_combat won d g)) = turn_count g"
  by (simp add: resolve_combat_def with_enemy_def Let_def add_to_knowledge_base_frame
      split: option.splits)

lemma turn_count_after_player_action:
  "turn_count (outcome_game (after_player_action d g)) = turn_count g"
  unfolding after_player_action_def
  by (rule turn_count_with_enemy)
     (auto intro!: turn_count_and_then simp: turn_count_resolve_combat turn_count_enemy_attack)

lemma turn_count_combat_action:
  "combat_action action d g = Some r \<Longrightarrow> turn_count (outcome_game r) = turn_count g"
  by (auto simp: combat_action_def turn_count_player_attack turn_count_player_defend
      turn_count_attempt_flee split: if_splits)

lemma turn_count_combat_turn:
  "turn_count (outcome_game (combat_turn action d g)) = turn_count g"
proof -
  have body: "turn_count (outcome_game
        (case combat_action action d g6 of
           None \<Rightarrow> Done (print_out s g6)
         | Some r \<Rightarrow> and_then r (after_player_action d))) = turn_count g"
    if "turn_count g6 = turn_count g" for g6 s
  proof (cases "combat_action action d g6")
    case None
    then show ?thesis
      using that by simp
  next
    case (Some r)
    have "turn_count (outcome_game r) = turn_count g"
      using turn_count_combat_action [OF Some] that by simp
    then have "turn_count (outcome_game (and_then r (after_player_action d))) = turn_count g"
      by (rule turn_count_and_then) (simp add: turn_count_after_player_action)
    then show ?thesis
      using Some by simp
  qed
  show ?thesis
    unfolding combat_turn_def Let_def
    apply (rule turn_count_with_enemy)
     apply simp
    apply (rule body)
    apply simp
    done
qed

lemma turn_count_start_combat:
  "turn_count (outcome_game (start_combat nm d g)) = turn_count g"
  by (simp add: start_combat_def split: option.splits)

lemma turn_count_change_location:
  "turn_count (outcome_game (change_location nm d reply g)) = turn_count g"
  by (auto simp: change_location_def Let_def dest: generate_ai_response_frame
      split: option.splits sum.splits prod.splits)

lemma turn_count_process_response_tags:
  "turn_count (outcome_game (process_response_tags response d reply g)) = turn_count g"
  unfolding process_response_tags_def
  by (intro turn_count_and_then)
     (auto simp: Let_def turn_count_start_combat turn_count_change_location
        add_to_knowledge_base_frame)

lemma turn_count_process_player_action:
  "turn_count (outcome_game (process_player_action action ar lr d g)) = turn_count g + 1"
proof (cases "generate_ai_response [] ar (g\<lparr>turn_count := turn_count g + 1\<rparr>)")
  case (Inl err)
  then show ?thesis
    by (simp add: process_player_action_def Let_def)
next
  case (Inr p)
  obtain response g2 where p: "p = (response, g2)"
    by (cases p)
  have t2: "turn_count g2 = turn_count g + 1"
    using generate_ai_response_frame [OF Inr [unfolded p]] by simp
  have "turn_count (outcome_game (and_then (process_response_tags response d lr g2)
          (\<lambda>g3. Done (print_out (Colors_GREEN @ [newline] @ remove_tags response) g3)))) =
        turn_count g + 1"
    by (rule turn_count_and_then) (simp_all add: turn_count_process_response_tags t2)
  then show ?thesis
    using Inr p by (simp add: process_player_action_def Let_def)
qed

lemma turn_count_combat_turns:
  "turn_count (outcome_game (combat_turns turns g)) = turn_count g"
proof (induction turns arbitrary: g)
  case Nil
  show ?case by simp
next
  case (Cons t turns)
  obtain action d where t: "t = (action, d)"
    by (cases t)
  have "turn_count (outcome_game (and_then (combat_turn action d g) (combat_turns turns))) =
        turn_count g"
    by (rule turn_count_and_then) (simp_all add: turn_count_combat_turn Cons.IH)
  then show ?case
    by (simp add: t)
qed

lemma turn_count_exploration_turn:
  "turn_count (outcome_game (exploration_turn action ar lr d g)) =
     (if lower action \<in> set [''quit'', ''exit'', ''q'', ''help'', ''h'', ''?'', ''status'', ''stats'',
                               ''stat'', ''inventory'', ''inv'', ''i'', ''history'', ''events'', ''kb'']
      then turn_count g else turn_count g + 1)"
  by (simp add: exploration_turn_def Let_def turn_count_process_player_action)

text \<open>
  C10. No combat action changes the turn counter: not a whole combat turn (which
  covers attack, use, defend, flee and an invalid input), not one of its actions alone,
  and not any number of consecutive combat turns; this holds whether the turn returns
  or ends in an exception. A processed exploration action adds exactly one (the menu
  commands of the exploration prompt add nothing). So the flee chance
  \<open>0.6 + turn_count / 100\<close> and the \<open>Turn N:\<close> prefix of a log entry are the same
  after a combat turn as before it.
\<close>

theorem turn_count_frozen_in_combat:
  "turn_count (outcome_game (combat_turn action d g)) = turn_count g \<and>
   turn_count (outcome_game (player_attack d g)) = turn_count g \<and>
   turn_count (use_item item_name g) = turn_count g \<and>
   turn_count (outcome_game (player_defend d g)) = turn_count g \<and>
   turn_count (outcome_game (attempt_flee d g)) = turn_count g \<and>
   turn_count (outcome_game (combat_turns turns g)) = turn_count g \<and>
   turn_count (outcome_game (process_player_action typed_action ar lr d g)) = turn_count g + 1 \<and>
   turn_count (outcome_game (exploration_turn typed_action ar lr d g)) =
     (if lower typed_action \<in> set [''quit'', ''exit'', ''q'', ''help'', ''h'', ''?'', ''status'',
                                     ''stats'', ''stat'', ''inventory'', ''inv'', ''i'', ''history'',
                                     ''events'', ''kb'']
      then turn_count g else turn_count g + 1) \<and>
   0.6 + real_of_int (turn_count (outcome_game (combat_turns turns g))) / 100 =
     0.6 + real_of_int (turn_count g) / 100 \<and>
   format_event (outcome_game (combat_turns turns g)) event = format_event g event"
  using turn_count_combat_turn [of action d g] turn_count_player_attack [of d g]
    turn_count_player_defend [of d g] turn_count_attempt_flee [of d g]
    turn_count_combat_turns [of turns g]
    turn_count_process_player_action [of typed_action ar lr d g]
    turn_count_exploration_turn [of typed_action ar lr d g]
  by (simp add: format_event_def)

subsection \<open>Defend\<close>

text \<open>
  C1. The claim is that a defend turn costs the player exactly one enemy hit, the reduced
  one inside \<open>player_defend\<close>. The code goes on to \<open>enemy_attack\<close> after every
  action that returns, the defend action included. Here a fresh player (health 100 of
  100, defense 5) defends against the wolf (attack 10): the reduced hit of the defend
  action takes 2, then the ordinary enemy attack takes 8 more, and both hits are
  printed.
\<close>

theorem defend_turn_takes_two_enemy_hits:
  "returns (combat_turn ''defend'' example_draws example_fight) \<and>
   health (the_player example_fight) = 100 \<and>
   health (the_player (outcome_game (combat_turn ''defend'' example_draws example_fight))) = 90 \<and>
   drop 8 (stdout (outcome_game (combat_turn ''defend'' example_draws example_fight))) =
     [Colors_RED @ ''The Wolf attacks, but you block most of it! 2 damage taken.'',
      Colors_RED @ [newline] @ ''The Wolf attacks you for 8 damage!'']"
  by code_simp

subsection \<open>Flee\<close>

text \<open>
  C2. The claim is that a successful flee ends combat, logs the flight and raises
  nothing. In the code every successful flee raises a TypeError: \<open>current_enemy\<close> is
  set to \<open>None\<close> before the log entry is built from its name. The log keeps its old
  content.
\<close>

theorem successful_flee_raises:
  assumes "roll_flee d < 0.6 + real_of_int (turn_count g) / 100"
  shows "attempt_flee d g =
           Raised TypeError_NoneType_not_subscriptable (outcome_game (attempt_flee d g)) \<and>
         knowledge_base (outcome_game (attempt_flee d g)) = knowledge_base g \<and>
         current_enemy (outcome_game (attempt_flee d g)) = None"
  using assms
  by (simp add: attempt_flee_def with_enemy_def Let_def split: option.splits)

theorem successful_flee_raises_witness:
  "roll_flee example_draws < 0.6 + real_of_int (turn_count example_fight) / 100 \<and>
   attempt_flee example_draws example_fight =
     Raised TypeError_NoneType_not_subscriptable
       (outcome_game (attempt_flee example_draws example_fight)) \<and>
   knowledge_base (outcome_game (attempt_flee example_draws example_fight)) = [] \<and>
   current_enemy (outcome_game (attempt_flee example_draws example_fight)) = None"
proof -
  have h: "roll_flee example_draws < 0.6 + real_of_int (turn_count example_fight) / 100"
    by (simp add: example_draws_def example_fight_def initial_game_def)
  have kb: "knowledge_base example_fight = []"
    by (simp add: example_fight_def initial_game_def)
  show ?thesis
    using h successful_flee_raises [OF h] kb by simp
qed

lemma flee_turn_example:
  "combat_turn ''flee'' example_draws example_fight =
     Raised TypeError_NoneType_not_subscriptable
       (outcome_game (combat_turn ''flee'' example_draws example_fight)) \<and>
   in_combat (outcome_game (combat_turn ''flee'' example_draws example_fight)) = False \<and>
   knowledge_base (outcome_game (combat_turn ''flee'' example_draws example_fight)) = []"
  by code_simp

subsection \<open>Location change\<close>

text \<open>
  C3. The claim is that a change to an unknown location synthesizes a record and that a
  failure of the collaborator degrades to an error description. In the code every
  change to an unknown location raises a TypeError, whatever the collaborator would
  do: the call passes the keyword \<open>max_tokens\<close>, which
  \<open>generate_ai_response\<close> does not take. The current location is already
  overwritten, no record is appended and nothing is logged.
\<close>

theorem unknown_location_raises:
  assumes "find (\<lambda>loc. lower (l_name loc) = lower location_name) (locations (world_data g)) = None"
  shows "change_location location_name d reply g =
           Raised (TypeError_unexpected_keyword ''max_tokens'') (g\<lparr>current_location := location_name\<rparr>)"
  using assms
  by (simp add: change_location_def generate_ai_response_def Let_def)

theorem unknown_location_raises_witness:
  "find (\<lambda>loc. lower (l_name loc) = lower ''Dark Cave'') (locations (world_data initial_game)) = None \<and>
   change_location ''Dark Cave'' example_draws (AI_Exception ''connection refused'') initial_game =
     Raised (TypeError_unexpected_keyword ''max_tokens'') (initial_game\<lparr>current_location := ''Dark Cave''\<rparr>)"
proof -
  have h: "find (\<lambda>loc. lower (l_name loc) = lower ''Dark Cave'')
             (locations (world_data initial_game)) = None"
    by (simp add: initial_game_def)
  show ?thesis
    using h unknown_location_raises [OF h] by simp
qed

lemma generate_ai_response_degrades:
  "generate_ai_response [] reply g \<noteq> Inl err"
  by (simp add: generate_ai_response_def split: ai_reply.splits)

subsection \<open>Registry\<close>

text \<open>\<open>start_combat\<close> never writes to the registry.\<close>

lemma start_combat_world_data:
  "world_data (outcome_game (start_combat enemy_name d g)) = world_data g"
  by (simp add: start_combat_def split: option.splits)

text \<open>
  C4. The claim is that a miss appends the synthesized record to its collection, so
  that the same name is found the next time. For an enemy the code does not: after
  \<open>start_combat\<close> on a miss the enemy collection is what it was, and the name is
  still missing from it. (For an item the record is appended, see
  \<open>find_item_registers\<close> and \<open>find_item_twice_stable\<close> below.)
\<close>

theorem synthesized_enemy_not_registered:
  assumes "find (\<lambda>e. lower (e_name e) = lower enemy_name) (enemies (world_data g)) = None"
  shows "enemies (world_data (outcome_game (start_combat enemy_name d g))) = enemies (world_data g) \<and>
         find (\<lambda>e. lower (e_name e) = lower enemy_name)
           (enemies (world_data (outcome_game (start_combat enemy_name d g)))) = None"
  using assms by (simp add: start_combat_world_data)

theorem synthesized_enemy_not_registered_witness:
  "find (\<lambda>e. lower (e_name e) = lower ''Shade'') (enemies (world_data (initial_game\<lparr>turn_count := 12\<rparr>))) = None \<and>
   enemies (world_data (outcome_game (start_combat ''Shade'' example_draws (initial_game\<lparr>turn_count := 12\<rparr>)))) = [] \<and>
   find (\<lambda>e. lower (e_name e) = lower ''Shade'')
     (enemies (world_data (outcome_game (start_combat ''Shade'' example_draws (initial_game\<lparr>turn_count := 12\<rparr>))))) = None"
proof -
  have h: "find (\<lambda>e. lower (e_name e) = lower ''Shade'')
             (enemies (world_data (initial_game\<lparr>turn_count := 12\<rparr>))) = None"
    by (simp add: initial_game_def)
  have e: "enemies (world_data (initial_game\<lparr>turn_count := 12\<rparr>)) = []"
    by (simp add: initial_game_def)
  show ?thesis
    using h synthesized_enemy_not_registered [OF h, of example_draws] e by simp
qed

text \<open>Two encounters with the same unknown name get two different records when the
  draws differ.\<close>

lemma two_synthesized_shades_differ:
  "current_enemy (outcome_game (start_combat ''Shade'' example_draws (initial_game\<lparr>turn_count := 12\<rparr>))) =
     Some (synthesize_enemy ''Shade'' 3) \<and>
   current_enemy (outcome_game (start_combat ''shade'' (example_draws\<lparr>roll_difficulty := 0\<rparr>)
     (outcome_game (start_combat ''Shade'' example_draws (initial_game\<lparr>turn_count := 12\<rparr>))))) =
     Some (synthesize_enemy ''shade'' 1)"
  by code_simp

lemma find_append_hit:
  "P x \<Longrightarrow> find P (xs @ [x]) \<noteq> None"
  by (induction xs) auto

lemma find_item_registers:
  "find (\<lambda>i. lower (i_name i) = lower item_name) (items (world_data (find_item item_name g))) \<noteq> None"
proof (cases "find (\<lambda>i. lower (i_name i) = lower item_name) (items (world_data g))")
  case None
  have "find (\<lambda>i. lower (i_name i) = lower item_name)
          (items (world_data g) @ [synthesize_item item_name]) \<noteq> None"
    by (rule find_append_hit) (simp add: synthesize_item_def)
  then show ?thesis
    using None by (simp add: find_item_def Let_def add_to_knowledge_base_frame)
next
  case (Some i)
  then show ?thesis
    by (simp add: find_item_def Let_def add_to_knowledge_base_frame)
qed

lemma find_item_hit_keeps_registry:
  "find (\<lambda>i. lower (i_name i) = lower item_name) (items (world_data g)) = Some i \<Longrightarrow>
   items (world_data (find_item item_name g)) = items (world_data g)"
  by (simp add: find_item_def Let_def add_to_knowledge_base_frame)

lemma find_item_twice_stable:
  "items (world_data (find_item item_name (find_item item_name g))) =
   items (world_data (find_item item_name g))"
proof -
  obtain i where "find (\<lambda>i. lower (i_name i) = lower item_name)
      (items (world_data (find_item item_name g))) = Some i"
    using find_item_registers [of item_name g] by auto
  then show ?thesis
    by (rule find_item_hit_keeps_registry)
qed

subsection \<open>Empty payload\<close>

text \<open>The guard \<open>len(parts) > 1\<close> holds whenever the tag occurs in the text, so it
  never skips a directive.\<close>

lemma split_from_nonempty: "split_from sep acc s \<noteq> []"
  by (induction sep acc s rule: split_from.induct) auto

lemma split_from_tag_present:
  "sep \<noteq> [] \<Longrightarrow> str_contains sep s \<Longrightarrow> 1 < length (split_from sep acc s)"
proof (induction sep acc s rule: split_from.induct)
  case (1 sep acc)
  then show ?case by simp
next
  case (2 sep acc c cs)
  show ?case
  proof (cases "startswith (c # cs) sep")
    case True
    have "split_from sep [] (drop (length sep - 1) cs) \<noteq> []"
      by (rule split_from_nonempty)
    then have "0 < length (split_from sep [] (drop (length sep - 1) cs))"
      by simp
    then show ?thesis
      using True "2.prems" by simp
  next
    case False
    then have "str_contains sep cs"
      using "2.prems" by simp
    then have "1 < length (split_from sep (c # acc) cs)"
      using False "2.prems" "2.IH"(2) by simp
    then show ?thesis
      using False by simp
  qed
qed

lemma tag_guard_always_true:
  "tag \<noteq> [] \<Longrightarrow> str_contains tag response \<Longrightarrow> 1 < length (split response tag)"
  unfolding split_def by (rule split_from_tag_present)

text \<open>
  C6. The claim is that a tag with an empty payload is skipped without any change of
  state. In the code the directive is dispatched with the empty name: for the response
  \<open>You fight. [COMBAT]\<close> an enemy with the empty name is synthesized, combat starts
  and the encounter is logged.
\<close>

theorem empty_combat_payload_starts_combat:
  "tag_payload (split ''You fight. [COMBAT]'' ''[COMBAT]'') = [] \<and>
   returns (process_response_tags ''You fight. [COMBAT]'' example_draws (AI_Response ''A place.'') initial_game) \<and>
   in_combat (outcome_game
     (process_response_tags ''You fight. [COMBAT]'' example_draws (AI_Response ''A place.'') initial_game)) \<and>
   current_enemy (outcome_game
     (process_response_tags ''You fight. [COMBAT]'' example_draws (AI_Response ''A place.'') initial_game)) =
     Some (synthesize_enemy [] 1) \<and>
   knowledge_base (outcome_game
     (process_response_tags ''You fight. [COMBAT]'' example_draws (AI_Response ''A place.'') initial_game)) =
     [''Turn 0: Encountered and fought '']"
  by code_simp

text \<open>The other three tags with an empty payload: an event with the empty text is
  logged, an item with the empty name is added, and the location change raises.\<close>

lemma empty_payloads_example:
  "knowledge_base (outcome_game
     (process_response_tags ''Done. [EVENT]'' example_draws (AI_Response ''A place.'') initial_game)) =
     [''Turn 0: ''] \<and>
   inventory (the_player (outcome_game
     (process_response_tags ''Done. [ITEM]'' example_draws (AI_Response ''A place.'') initial_game))) =
     [synthesize_item []] \<and>
   process_response_tags ''Done. [LOCATION]'' example_draws (AI_Response ''A place.'') initial_game =
     Raised (TypeError_unexpected_keyword ''max_tokens'') initial_game"
  by code_simp

subsection \<open>Tag stripping\<close>

text \<open>The text the claim expects for display is not what \<open>remove_tags\<close>
  returns: the newline that ends the payload line is removed with the line, and the
  space before the tag stays.\<close>

theorem tag_stripping_keeps_newline_counterexample:
  "remove_tags (''You see a cave. [LOCATION] Dark Cave'' @ [newline] @ ''It is cold.'') \<noteq>
     ''You see a cave.'' @ [newline] @ ''It is cold.''"
  by code_simp

lemma known_location_returns:
  assumes "find (\<lambda>loc. lower (l_name loc) = lower location_name) (locations (world_data g)) = Some loc"
  shows "change_location location_name d reply g =
           Done (announce_location (current_location g) location_name (g\<lparr>current_location := location_name\<rparr>))"
  using assms by (simp add: change_location_def Let_def)

text \<open>A response whose only tag is \<open>[LOCATION]\<close>, naming a known location.\<close>

lemma location_only_tags:
  assumes no_combat: "\<not> str_contains ''[COMBAT]'' text"
    and no_item: "\<not> str_contains ''[ITEM]'' text"
    and loc_tag: "str_contains ''[LOCATION]'' text"
    and no_event: "\<not> str_contains ''[EVENT]'' text"
    and payload: "tag_payload (split text ''[LOCATION]'') = location_name"
    and known: "find (\<lambda>loc. lower (l_name loc) = lower location_name) (locations (world_data g)) = Some loc"
  shows "process_response_tags text d reply g =
           Done (announce_location (current_location g) location_name (g\<lparr>current_location := location_name\<rparr>))"
proof -
  have guard: "1 < length (split text ''[LOCATION]'')"
    by (rule tag_guard_always_true [OF _ loc_tag]) simp
  show ?thesis
    using no_combat no_item loc_tag no_event guard
    by (simp add: process_response_tags_def and_then_def Let_def payload
        known_location_returns [OF known])
qed

lemma location_only_action:
  assumes plain: "strip_think text = text"
    and no_combat: "\<not> str_contains ''[COMBAT]'' text"
    and no_item: "\<not> str_contains ''[ITEM]'' text"
    and loc_tag: "str_contains ''[LOCATION]'' text"
    and no_event: "\<not> str_contains ''[EVENT]'' text"
    and payload: "tag_payload (split text ''[LOCATION]'') = location_name"
    and shown: "remove_tags text = display"
    and known: "find (\<lambda>loc. lower (l_name loc) = lower location_name) (locations (world_data g)) \<noteq> None"
  shows "returns (process_player_action typed_action (AI_Response text) lr d g) \<and>
         current_location (outcome_game (process_player_action typed_action (AI_Response text) lr d g)) =
           location_name \<and>
         last (stdout (outcome_game (process_player_action typed_action (AI_Response text) lr d g))) =
           Colors_GREEN @ [newline] @ display"
proof -
  let ?g1 = "g\<lparr>turn_count := turn_count g + 1\<rparr>"
  obtain loc where loc: "find (\<lambda>loc. lower (l_name loc) = lower location_name)
      (locations (world_data ?g1)) = Some loc"
    using known by auto
  have gen: "generate_ai_response [] (AI_Response text) ?g1 = Inr (text, ?g1)"
    by (simp add: generate_ai_response_def plain)
  have tags: "process_response_tags text d lr ?g1 =
      Done (announce_location (current_location ?g1) location_name (?g1\<lparr>current_location := location_name\<rparr>))"
    by (rule location_only_tags [OF no_combat no_item loc_tag no_event payload loc])
  have run: "process_player_action typed_action (AI_Response text) lr d g =
      Done (print_out (Colors_GREEN @ [newline] @ display)
        (announce_location (current_location ?g1) location_name (?g1\<lparr>current_location := location_name\<rparr>)))"
    by (simp add: process_player_action_def Let_def gen tags and_then_def shown)
  show ?thesis
    by (simp add: run)
qed

lemma cave_text_facts:
  "strip_think (''You see a cave. [LOCATION] Dark Cave'' @ [newline] @ ''It is cold.'') =
     ''You see a cave. [LOCATION] Dark Cave'' @ [newline] @ ''It is cold.''"
  "\<not> str_contains ''[COMBAT]'' (''You see a cave. [LOCATION] Dark Cave'' @ [newline] @ ''It is cold.'')"
  "\<not> str_contains ''[ITEM]'' (''You see a cave. [LOCATION] Dark Cave'' @ [newline] @ ''It is cold.'')"
  "str_contains ''[LOCATION]'' (''You see a cave. [LOCATION] Dark Cave'' @ [newline] @ ''It is cold.'')"
  "\<not> str_contains ''[EVENT]'' (''You see a cave. [LOCATION] Dark Cave'' @ [newline] @ ''It is cold.'')"
  "tag_payload (split (''You see a cave. [LOCATION] Dark Cave'' @ [newline] @ ''It is cold.'') ''[LOCATION]'') =
     ''Dark Cave''"
  "remove_tags (''You see a cave. [LOCATION] Dark Cave'' @ [newline] @ ''It is cold.'') =
     ''You see a cave. It is cold.''"
  by code_simp+

text \<open>
  C5, as amended. For the text \<open>You see a cave. [LOCATION] Dark Cave\<close>, newline,
  \<open>It is cold.\<close> the tag-stripped text is \<open>You see a cave. It is cold.\<close> (one
  line). When the registry holds a location named Dark Cave (compared in lower case),
  the action returns, the current location becomes \<open>Dark Cave\<close>, and the stripped
  text is what is displayed last.
\<close>

theorem tag_stripping_example:
  assumes "find (\<lambda>loc. lower (l_name loc) = lower ''Dark Cave'') (locations (world_data g)) \<noteq> None"
  shows "remove_tags (''You see a cave. [LOCATION] Dark Cave'' @ [newline] @ ''It is cold.'') =
           ''You see a cave. It is cold.'' \<and>
         returns (process_player_action typed_action
           (AI_Response (''You see a cave. [LOCATION] Dark Cave'' @ [newline] @ ''It is cold.'')) lr d g) \<and>
         current_location (outcome_game (process_player_action typed_action
           (AI_Response (''You see a cave. [LOCATION] Dark Cave'' @ [newline] @ ''It is cold.'')) lr d g)) =
           ''Dark Cave'' \<and>
         last (stdout (outcome_game (process_player_action typed_action
           (AI_Response (''You see a cave. [LOCATION] Dark Cave'' @ [newline] @ ''It is cold.'')) lr d g))) =
           Colors_GREEN @ [newline] @ ''You see a cave. It is cold.''"
  by (rule conjI [OF cave_text_facts(7)
        location_only_action [OF cave_text_facts(1) cave_text_facts(2) cave_text_facts(3)
          cave_text_facts(4) cave_text_facts(5) cave_text_facts(6) cave_text_facts(7) assms]])

theorem tag_stripping_example_witness:
  "find (\<lambda>loc. lower (l_name loc) = lower ''Dark Cave'')
     (locations (world_data (new_session (example_world []) ''Hero'' ''Starting Village''
        \<lparr>world_data := (example_world [])\<lparr>locations :=
           [\<lparr>l_name = ''dark cave'', l_type = ''dungeon'', l_description = ''A cold cave.''\<rparr>]\<rparr>\<rparr>))) \<noteq> None \<and>
   remove_tags (''You see a cave. [LOCATION] Dark Cave'' @ [newline] @ ''It is cold.'') =
     ''You see a cave. It is cold.'' \<and>
   current_location (outcome_game (process_player_action ''enter the cave''
     (AI_Response (''You see a cave. [LOCATION] Dark Cave'' @ [newline] @ ''It is cold.''))
     (AI_Response ''A place.'') example_draws
     (new_session (example_world []) ''Hero'' ''Starting Village''
        \<lparr>world_data := (example_world [])\<lparr>locations :=
           [\<lparr>l_name = ''dark cave'', l_type = ''dungeon'', l_description = ''A cold cave.''\<rparr>]\<rparr>\<rparr>))) =
     ''Dark Cave''"
proof -
  let ?g = "new_session (example_world []) ''Hero'' ''Starting Village''
        \<lparr>world_data := (example_world [])\<lparr>locations :=
           [\<lparr>l_name = ''dark cave'', l_type = ''dungeon'', l_description = ''A cold cave.''\<rparr>]\<rparr>\<rparr>"
  have h: "find (\<lambda>loc. lower (l_name loc) = lower ''Dark Cave'') (locations (world_data ?g)) \<noteq> None"
    by code_simp
  note t = tag_stripping_example [OF h, of "''enter the cave''" "AI_Response ''A place.''" example_draws]
  show ?thesis
    by (rule conjI [OF h conjI [OF t [THEN conjunct1] t [THEN conjunct2, THEN conjunct2, THEN conjunct1]]])
qed

text \<open>With a registry that does not hold the cave, the same response ends the action
  in the exception of the location change; the text is never displayed.\<close>

lemma unknown_cave_example:
  "process_player_action ''enter the cave''
     (AI_Response (''You see a cave. [LOCATION] Dark Cave'' @ [newline] @ ''It is cold.''))
     (AI_Response ''A place.'') example_draws initial_game =
   Raised (TypeError_unexpected_keyword ''max_tokens'')
     (initial_game\<lparr>turn_count := 1, current_location := ''Dark Cave''\<rparr>)"
  by code_simp

subsection \<open>Effect parser\<close>

lemma digit_char_digit:
  assumes "d < 10"
  shows "isdigit (digit_char d) \<and> digit_value (digit_char d) = int d"
proof -
  have "d = 0 \<or> d = 1 \<or> d = 2 \<or> d = 3 \<or> d = 4 \<or> d = 5 \<or> d = 6 \<or> d = 7 \<or> d = 8 \<or> d = 9"
    using assms by arith
  then show ?thesis
    by (elim disjE) (simp_all add: digit_char_def isdigit_def digit_value_def)
qed

lemma int_of_digits_snoc:
  "int_of_digits (ds @ [c]) = 10 * int_of_digits ds + digit_value c"
  by (simp add: int_of_digits_def)

lemma str_nat_digits: "list_all isdigit (str_nat n) \<and> str_nat n \<noteq> []"
proof (induction n rule: str_nat.induct)
  case (1 n)
  show ?case
  proof (cases "n < 10")
    case True
    then show ?thesis
      using digit_char_digit [of n] by (simp add: str_nat.simps [of n])
  next
    case False
    have "n mod 10 < 10"
      by simp
    then have "isdigit (digit_char (n mod 10))"
      using digit_char_digit by blast
    then show ?thesis
      using False "1.IH" by (simp add: str_nat.simps [of n])
  qed
qed

lemma int_of_digits_str_nat: "int_of_digits (str_nat n) = int n"
proof (induction n rule: str_nat.induct)
  case (1 n)
  show ?case
  proof (cases "n < 10")
    case True
    then show ?thesis
      using digit_char_digit [of n] by (simp add: str_nat.simps [of n] int_of_digits_def)
  next
    case False
    have m: "n mod 10 < 10"
      by simp
    have "int_of_digits (str_nat n) =
        10 * int_of_digits (str_nat (n div 10)) + digit_value (digit_char (n mod 10))"
      using False by (simp add: str_nat.simps [of n] int_of_digits_snoc)
    also have "\<dots> = 10 * int (n div 10) + int (n mod 10)"
      using False "1.IH" digit_char_digit [OF m] by simp
    also have "\<dots> = int n"
      by (simp add: zdiv_int zmod_int)
    finally show ?thesis .
  qed
qed

lemma int_of_digits_nonneg_aux:
  "list_all isdigit ds \<Longrightarrow> 0 \<le> a \<Longrightarrow> 0 \<le> foldl (\<lambda>a c. 10 * a + digit_value c) a ds"
proof (induction ds arbitrary: a)
  case Nil
  then show ?case by simp
next
  case (Cons c ds)
  have "0 \<le> digit_value c"
    using Cons.prems(1) by (simp add: isdigit_def digit_value_def Let_def)
  then have "0 \<le> 10 * a + digit_value c"
    using Cons.prems(2) by simp
  then show ?case
    using Cons.IH Cons.prems(1) by simp
qed

lemma int_of_digits_nonneg: "list_all isdigit ds \<Longrightarrow> 0 \<le> int_of_digits ds"
  by (simp add: int_of_digits_def int_of_digits_nonneg_aux)

lemma takeWhile_digits_run:
  assumes "list_all isdigit ds" and "post = [] \<or> \<not> isdigit (hd post)"
  shows "takeWhile isdigit (ds @ post) = ds"
proof -
  have "takeWhile isdigit (ds @ post) = ds @ takeWhile isdigit post"
    using assms(1) by (simp add: takeWhile_append2 list_all_iff)
  moreover have "takeWhile isdigit post = []"
    using assms(2) by (cases post) auto
  ultimately show ?thesis
    by simp
qed

lemma re_search_digits_first_run:
  assumes pre: "list_all (\<lambda>c. \<not> isdigit c) pre"
    and ds: "list_all isdigit ds" "ds \<noteq> []"
    and post: "post = [] \<or> \<not> isdigit (hd post)"
  shows "re_search_digits (pre @ ds @ post) = Some ds"
proof -
  obtain d ds' where d: "ds = d # ds'"
    using ds(2) by (cases ds) auto
  have dd: "isdigit d" "list_all isdigit ds'"
    using ds(1) d by simp_all
  have "dropWhile (\<lambda>c. \<not> isdigit c) (pre @ ds @ post) = dropWhile (\<lambda>c. \<not> isdigit c) (ds @ post)"
    using pre by (simp add: dropWhile_append2 list_all_iff)
  also have "\<dots> = d # ds' @ post"
    using dd(1) by (simp add: d)
  finally have "re_search_digits (pre @ ds @ post) = Some (d # takeWhile isdigit (ds' @ post))"
    by (simp add: re_search_digits_def)
  then show ?thesis
    using takeWhile_digits_run [OF dd(2) post] by (simp add: d)
qed

lemma re_search_digits_none:
  assumes "list_all (\<lambda>c. \<not> isdigit c) s"
  shows "re_search_digits s = None"
proof -
  have "dropWhile (\<lambda>c. \<not> isdigit c) s = []"
    using assms by (simp add: list_all_iff dropWhile_eq_Nil_conv)
  then show ?thesis
    unfolding re_search_digits_def by (simp only: list.case)
qed

lemma re_search_digits_are_digits:
  assumes "re_search_digits s = Some ds"
  shows "list_all isdigit ds"
proof (cases "dropWhile (\<lambda>c. \<not> isdigit c) s")
  case Nil
  have "re_search_digits s = None"
    unfolding re_search_digits_def Nil by simp
  then show ?thesis
    using assms by simp
next
  case (Cons d rest)
  have "isdigit d"
    using hd_dropWhile [of "\<lambda>c. \<not> isdigit c" s] Cons by simp
  moreover have "list_all isdigit (takeWhile isdigit rest)"
    unfolding list_all_iff by (meson set_takeWhileD)
  moreover have "re_search_digits s = Some (d # takeWhile isdigit rest)"
    unfolding re_search_digits_def Cons by simp
  ultimately show ?thesis
    using assms by auto
qed

lemma parse_heal_amount_nonneg: "0 \<le> parse_heal_amount effect"
  by (auto simp: parse_heal_amount_def split: option.splits
      dest!: re_search_digits_are_digits intro: int_of_digits_nonneg)

lemma parse_heal_amount_first_number:
  assumes "list_all (\<lambda>c. \<not> isdigit c) pre" and "post = [] \<or> \<not> isdigit (hd post)"
  shows "parse_heal_amount (pre @ str_nat n @ post) = int n"
  using re_search_digits_first_run [OF assms(1) _ _ assms(2), of "str_nat n"] str_nat_digits [of n]
  by (simp add: parse_heal_amount_def int_of_digits_str_nat)

lemma parse_heal_amount_default:
  "list_all (\<lambda>c. \<not> isdigit c) effect \<Longrightarrow> parse_heal_amount effect = 20"
  by (simp add: parse_heal_amount_def re_search_digits_none)

lemma plus_not_digit: "\<not> isdigit (CHR ''+'')"
  by (simp add: isdigit_def)

lemma re_search_plus_digits_first:
  assumes pre: "re_search_plus_digits pre = None"
    and ds: "list_all isdigit ds" "ds \<noteq> []"
    and post: "post = [] \<or> \<not> isdigit (hd post)"
  shows "re_search_plus_digits (pre @ CHR ''+'' # ds @ post) = Some ds"
  using pre
proof (induction pre)
  case Nil
  have "isdigit (hd (ds @ post))"
    using ds by (cases ds) auto
  then show ?case
    using ds(2) takeWhile_digits_run [OF ds(1) post] by simp
next
  case (Cons c pre)
  have rest: "re_search_plus_digits pre = None"
    using Cons.prems by (simp split: if_splits)
  have "\<not> (c = CHR ''+'' \<and> isdigit (hd (pre @ CHR ''+'' # ds @ post)))"
  proof (cases pre)
    case Nil
    then show ?thesis
      by (simp add: plus_not_digit)
  next
    case (Cons p pre')
    then show ?thesis
      using Cons.prems by (auto split: if_splits)
  qed
  then show ?case
    using Cons.IH [OF rest] by auto
qed

lemma re_search_plus_digits_none:
  assumes "\<And>i. Suc i < length s \<Longrightarrow> \<not> (s ! i = CHR ''+'' \<and> isdigit (s ! Suc i))"
  shows "re_search_plus_digits s = None"
  using assms
proof (induction s)
  case Nil
  then show ?case by simp
next
  case (Cons c cs)
  have "re_search_plus_digits cs = None"
  proof (rule Cons.IH)
    fix i
    assume "Suc i < length cs"
    then show "\<not> (cs ! i = CHR ''+'' \<and> isdigit (cs ! Suc i))"
      using Cons.prems [of "Suc i"] by simp
  qed
  moreover have "\<not> (c = CHR ''+'' \<and> cs \<noteq> [] \<and> isdigit (hd cs))"
  proof (cases cs)
    case Nil
    then show ?thesis by simp
  next
    case (Cons x xs)
    then show ?thesis
      using Cons.prems [of 0] by simp
  qed
  ultimately show ?case
    by auto
qed

lemma parse_bonus_plus_number:
  assumes "re_search_plus_digits pre = None" and "post = [] \<or> \<not> isdigit (hd post)"
  shows "parse_bonus fallback (pre @ CHR ''+'' # str_nat n @ post) = int n"
  using re_search_plus_digits_first [OF assms(1) _ _ assms(2), of "str_nat n"] str_nat_digits [of n]
  by (simp add: parse_bonus_def int_of_digits_str_nat)

lemma parse_bonus_default:
  assumes "\<And>i. Suc i < length effect \<Longrightarrow> \<not> (effect ! i = CHR ''+'' \<and> isdigit (effect ! Suc i))"
  shows "parse_bonus fallback effect = fallback"
  using re_search_plus_digits_none [OF assms] by (simp add: parse_bonus_def)

lemma parse_examples:
  "parse_heal_amount ''Heal 50 health'' = 50"
  "parse_bonus 5 ''+7 damage'' = 7"
  "parse_bonus 5 ''Boost 3'' = 5"
  "parse_bonus 3 ''Boost 3'' = 3"
  by code_simp+

subsection \<open>Using an item\<close>

lemma item_index_from_first:
  "item_index_from k item_name pack = Some j \<Longrightarrow>
     k \<le> j \<and> j - k < length pack \<and> lower (i_name (pack ! (j - k))) = lower item_name \<and>
     (\<forall>m < j - k. lower (i_name (pack ! m)) \<noteq> lower item_name)"
proof (induction pack arbitrary: k)
  case Nil
  then show ?case by simp
next
  case (Cons i rest)
  show ?case
  proof (cases "lower (i_name i) = lower item_name")
    case True
    then show ?thesis
      using Cons.prems by simp
  next
    case False
    then have r: "item_index_from (Suc k) item_name rest = Some j"
      using Cons.prems by simp
    note ih = Cons.IH [OF r]
    then have kj: "Suc k \<le> j"
      by simp
    then have idx: "j - k = Suc (j - Suc k)"
      by simp
    show ?thesis
      unfolding idx using ih kj False by (auto simp: less_Suc_eq_0_disj)
  qed
qed

lemma use_item_consumable_heal:
  assumes idx: "item_index_from 0 item_name (inventory (the_player g)) = Some k"
    and item: "item = inventory (the_player g) ! k"
    and kind: "lower (i_type item) = ''consumable''"
    and heal: "str_contains ''heal'' (lower (i_effect item)) \<or> str_contains ''health'' (lower (i_effect item))"
  shows "health (the_player (use_item item_name g)) =
           min (max_health (the_player g)) (health (the_player g) + parse_heal_amount (i_effect item)) \<and>
         last (stdout (use_item item_name g)) =
           Colors_GREEN @ [newline] @ ''You used '' @ i_name item @ '' and recovered ''
             @ str_int (health (the_player (use_item item_name g)) - health (the_player g)) @ '' health!'' \<and>
         inventory (the_player (use_item item_name g)) = pop_at k (inventory (the_player g)) \<and>
         attack (the_player (use_item item_name g)) = attack (the_player g) \<and>
         defense (the_player (use_item item_name g)) = defense (the_player g)"
  using kind heal unfolding use_item_def idx item [symmetric] option.case Let_def
  by (simp add: set_health_def print_out_def)

lemma use_item_weapon:
  assumes idx: "item_index_from 0 item_name (inventory (the_player g)) = Some k"
    and item: "item = inventory (the_player g) ! k"
    and kind: "lower (i_type item) = ''weapon''"
  shows "attack (the_player (use_item item_name g)) =
           attack (the_player g) + parse_bonus 5 (i_effect item) \<and>
         inventory (the_player (use_item item_name g)) = inventory (the_player g) \<and>
         health (the_player (use_item item_name g)) = health (the_player g) \<and>
         defense (the_player (use_item item_name g)) = defense (the_player g)"
  using kind unfolding use_item_def idx item [symmetric] option.case Let_def
  by (simp add: print_out_def)

lemma use_item_armor:
  assumes idx: "item_index_from 0 item_name (inventory (the_player g)) = Some k"
    and item: "item = inventory (the_player g) ! k"
    and kind: "lower (i_type item) = ''armor''"
  shows "defense (the_player (use_item item_name g)) =
           defense (the_player g) + parse_bonus 3 (i_effect item) \<and>
         inventory (the_player (use_item item_name g)) = inventory (the_player g) \<and>
         health (the_player (use_item item_name g)) = health (the_player g) \<and>
         attack (the_player (use_item item_name g)) = attack (the_player g)"
  using kind unfolding use_item_def idx item [symmetric] option.case Let_def
  by (simp add: print_out_def)


text \<open>
  C7. Let \<open>item\<close> be the inventory entry that \<open>use_item\<close> finds for the name.
  \<^item> A consumable whose effect text contains \<open>heal\<close> or \<open>health\<close> (in lower
    case) is removed from the inventory; the health becomes the old health plus the
    parsed amount, clamped to \<open>max_health\<close>, and the message reports the difference
    of the new and the old health.
  \<^item> A weapon adds its parsed bonus (fallback 5) to the attack, armor (fallback 3) to
    the defense; both stay in the inventory.
  \<^item> The parsed heal amount is the first number of the text (any text before it without
    a digit, the decimal digits of \<open>n\<close>, then no further digit), and 20 for a text
    without a digit. The parsed bonus is the number after the first plus sign that a
    digit follows, and the fallback when no plus sign is followed by a digit.
  \<^item> \<open>Heal 50 health\<close> gives 50, \<open>+7 damage\<close> gives 7, \<open>Boost 3\<close> gives the
    fallback.
\<close>

theorem use_item_effects:
  assumes idx: "item_index_from 0 item_name (inventory (the_player g)) = Some k"
    and item: "item = inventory (the_player g) ! k"
  shows
    "(lower (i_type item) = ''consumable'' \<and>
      (str_contains ''heal'' (lower (i_effect item)) \<or> str_contains ''health'' (lower (i_effect item))) \<longrightarrow>
        health (the_player (use_item item_name g)) =
          min (max_health (the_player g)) (health (the_player g) + parse_heal_amount (i_effect item)) \<and>
        last (stdout (use_item item_name g)) =
          Colors_GREEN @ [newline] @ ''You used '' @ i_name item @ '' and recovered ''
            @ str_int (health (the_player (use_item item_name g)) - health (the_player g)) @ '' health!'' \<and>
        inventory (the_player (use_item item_name g)) = pop_at k (inventory (the_player g))) \<and>
     (lower (i_type item) = ''weapon'' \<longrightarrow>
        attack (the_player (use_item item_name g)) = attack (the_player g) + parse_bonus 5 (i_effect item) \<and>
        inventory (the_player (use_item item_name g)) = inventory (the_player g)) \<and>
     (lower (i_type item) = ''armor'' \<longrightarrow>
        defense (the_player (use_item item_name g)) = defense (the_player g) + parse_bonus 3 (i_effect item) \<and>
        inventory (the_player (use_item item_name g)) = inventory (the_player g)) \<and>
     (\<forall>pre n post. list_all (\<lambda>c. \<not> isdigit c) pre \<and> (post = [] \<or> \<not> isdigit (hd post)) \<longrightarrow>
        parse_heal_amount (pre @ str_nat n @ post) = int n) \<and>
     (\<forall>effect. list_all (\<lambda>c. \<not> isdigit c) effect \<longrightarrow> parse_heal_amount effect = 20) \<and>
     (\<forall>fallback pre n post.
        (\<forall>i. Suc i < length pre \<longrightarrow> \<not> (pre ! i = CHR ''+'' \<and> isdigit (pre ! Suc i))) \<and>
        (post = [] \<or> \<not> isdigit (hd post)) \<longrightarrow>
        parse_bonus fallback (pre @ CHR ''+'' # str_nat n @ post) = int n) \<and>
     (\<forall>fallback effect.
        (\<forall>i. Suc i < length effect \<longrightarrow> \<not> (effect ! i = CHR ''+'' \<and> isdigit (effect ! Suc i))) \<longrightarrow>
        parse_bonus fallback effect = fallback) \<and>
     parse_heal_amount ''Heal 50 health'' = 50 \<and>
     parse_bonus 5 ''+7 damage'' = 7 \<and>
     parse_bonus 5 ''Boost 3'' = 5 \<and>
     parse_bonus 3 ''Boost 3'' = 3"
proof -
  have a: "lower (i_type item) = ''consumable'' \<and>
      (str_contains ''heal'' (lower (i_effect item)) \<or> str_contains ''health'' (lower (i_effect item))) \<longrightarrow>
        health (the_player (use_item item_name g)) =
          min (max_health (the_player g)) (health (the_player g) + parse_heal_amount (i_effect item)) \<and>
        last (stdout (use_item item_name g)) =
          Colors_GREEN @ [newline] @ ''You used '' @ i_name item @ '' and recovered ''
            @ str_int (health (the_player (use_item item_name g)) - health (the_player g)) @ '' health!'' \<and>
        inventory (the_player (use_item item_name g)) = pop_at k (inventory (the_player g))"
    using use_item_consumable_heal [OF idx item] by blast
  have b: "lower (i_type item) = ''weapon'' \<longrightarrow>
        attack (the_player (use_item item_name g)) = attack (the_player g) + parse_bonus 5 (i_effect item) \<and>
        inventory (the_player (use_item item_name g)) = inventory (the_player g)"
    using use_item_weapon [OF idx item] by blast
  have c: "lower (i_type item) = ''armor'' \<longrightarrow>
        defense (the_player (use_item item_name g)) = defense (the_player g) + parse_bonus 3 (i_effect item) \<and>
        inventory (the_player (use_item item_name g)) = inventory (the_player g)"
    using use_item_armor [OF idx item] by blast
  have d: "\<forall>pre n post. list_all (\<lambda>c. \<not> isdigit c) pre \<and> (post = [] \<or> \<not> isdigit (hd post)) \<longrightarrow>
        parse_heal_amount (pre @ str_nat n @ post) = int n"
    using parse_heal_amount_first_number by blast
  have e: "\<forall>effect. list_all (\<lambda>c. \<not> isdigit c) effect \<longrightarrow> parse_heal_amount effect = 20"
    using parse_heal_amount_default by blast
  have f: "\<forall>fallback pre n post.
        (\<forall>i. Suc i < length pre \<longrightarrow> \<not> (pre ! i = CHR ''+'' \<and> isdigit (pre ! Suc i))) \<and>
        (post = [] \<or> \<not> isdigit (hd post)) \<longrightarrow>
        parse_bonus fallback (pre @ CHR ''+'' # str_nat n @ post) = int n"
  proof (intro allI impI)
    fix fallback :: int and pre n post
    assume h: "(\<forall>i. Suc i < length pre \<longrightarrow> \<not> (pre ! i = CHR ''+'' \<and> isdigit (pre ! Suc i))) \<and>
        (post = [] \<or> \<not> isdigit (hd post))"
    have "re_search_plus_digits pre = None"
      by (rule re_search_plus_digits_none) (use h in blast)
    then show "parse_bonus fallback (pre @ CHR ''+'' # str_nat n @ post) = int n"
      using h by (intro parse_bonus_plus_number) blast+
  qed
  have g: "\<forall>fallback effect.
        (\<forall>i. Suc i < length effect \<longrightarrow> \<not> (effect ! i = CHR ''+'' \<and> isdigit (effect ! Suc i))) \<longrightarrow>
        parse_bonus fallback effect = fallback"
    using parse_bonus_default by blast
  show ?thesis
    by (intro conjI a b c d e f g parse_examples)
qed

theorem use_item_effects_witness:
  "item_index_from 0 ''potion'' (inventory (the_player example_pack)) = Some 0 \<and>
   health (the_player example_pack) = 30 \<and>
   health (the_player (use_item ''potion'' example_pack)) = 80 \<and>
   inventory (the_player (use_item ''potion'' example_pack)) = [example_sword, example_shield] \<and>
   last (stdout (use_item ''potion'' example_pack)) =
     Colors_GREEN @ [newline] @ ''You used Potion and recovered 50 health!'' \<and>
   item_index_from 0 ''SWORD'' (inventory (the_player example_pack)) = Some 1 \<and>
   attack (the_player (use_item ''SWORD'' example_pack)) = 17 \<and>
   item_index_from 0 ''shield'' (inventory (the_player example_pack)) = Some 2 \<and>
   defense (the_player (use_item ''shield'' example_pack)) = 8"
proof -
  have i0: "item_index_from 0 ''potion'' (inventory (the_player example_pack)) = Some 0"
    and i1: "item_index_from 0 ''SWORD'' (inventory (the_player example_pack)) = Some 1"
    and i2: "item_index_from 0 ''shield'' (inventory (the_player example_pack)) = Some 2"
    by code_simp+
  have e0: "example_potion = inventory (the_player example_pack) ! 0"
    and e1: "example_sword = inventory (the_player example_pack) ! 1"
    and e2: "example_shield = inventory (the_player example_pack) ! 2"
    by code_simp+
  have k0: "lower (i_type example_potion) = ''consumable'' \<and>
      (str_contains ''heal'' (lower (i_effect example_potion)) \<or>
       str_contains ''health'' (lower (i_effect example_potion)))"
    and k1: "lower (i_type example_sword) = ''weapon''"
    and k2: "lower (i_type example_shield) = ''armor''"
    by code_simp+
  note t0 = use_item_effects [OF i0 e0, THEN conjunct1, THEN mp, OF k0]
  note t1 = use_item_effects [OF i1 e1, THEN conjunct2, THEN conjunct1, THEN mp, OF k1]
  note t2 = use_item_effects [OF i2 e2, THEN conjunct2, THEN conjunct2, THEN conjunct1, THEN mp, OF k2]
  have h0: "health (the_player example_pack) = 30"
    by code_simp
  have v0: "min (max_health (the_player example_pack))
      (health (the_player example_pack) + parse_heal_amount (i_effect example_potion)) = 80"
    by code_simp
  have r0: "health (the_player (use_item ''potion'' example_pack)) = 80"
    using t0 [THEN conjunct1] v0 by (rule trans)
  have p0: "pop_at 0 (inventory (the_player example_pack)) = [example_sword, example_shield]"
    by code_simp
  have inv0: "inventory (the_player (use_item ''potion'' example_pack)) = [example_sword, example_shield]"
    using t0 [THEN conjunct2, THEN conjunct2] p0 by (rule trans)
  have m0: "Colors_GREEN @ [newline] @ ''You used '' @ i_name example_potion @ '' and recovered ''
      @ str_int (80 - 30) @ '' health!'' =
      Colors_GREEN @ [newline] @ ''You used Potion and recovered 50 health!''"
    by code_simp
  have out0: "last (stdout (use_item ''potion'' example_pack)) =
      Colors_GREEN @ [newline] @ ''You used Potion and recovered 50 health!''"
    using t0 [THEN conjunct2, THEN conjunct1] unfolding r0 h0 m0 .
  have v1: "attack (the_player example_pack) + parse_bonus 5 (i_effect example_sword) = 17"
    by code_simp
  have r1: "attack (the_player (use_item ''SWORD'' example_pack)) = 17"
    using t1 [THEN conjunct1] v1 by (rule trans)
  have v2: "defense (the_player example_pack) + parse_bonus 3 (i_effect example_shield) = 8"
    by code_simp
  have r2: "defense (the_player (use_item ''shield'' example_pack)) = 8"
    using t2 [THEN conjunct1] v2 by (rule trans)
  show ?thesis
    by (intro conjI i0 h0 r0 inv0 out0 i1 r1 i2 r2)
qed

subsection \<open>The maximum health is never written\<close>

lemma max_health_with_enemy:
  "max_health (the_player g) = m \<Longrightarrow>
   (\<And>e. max_health (the_player (outcome_game (f e))) = m) \<Longrightarrow>
   max_health (the_player (outcome_game (with_enemy g f))) = m"
  by (simp add: with_enemy_def split: option.splits)

lemma max_health_and_then:
  "max_health (the_player (outcome_game r)) = m \<Longrightarrow>
   (\<And>g'. max_health (the_player g') = m \<Longrightarrow> max_health (the_player (outcome_game (f g'))) = m) \<Longrightarrow>
   max_health (the_player (outcome_game (and_then r f))) = m"
  by (cases r) (simp_all add: and_then_def)

lemma max_health_player_attack:
  "max_health (the_player (outcome_game (player_attack d g))) = max_health (the_player g)"
  by (simp add: player_attack_def with_enemy_def Let_def split: option.splits)

lemma max_health_enemy_attack:
  "max_health (the_player (outcome_game (enemy_attack d g))) = max_health (the_player g)"
  by (simp add: enemy_attack_def with_enemy_def Let_def split: option.splits)

lemma max_health_player_defend:
  "max_health (the_player (outcome_game (player_defend d g))) = max_health (the_player g)"
  by (simp add: player_defend_def with_enemy_def Let_def split: option.splits)

lemma max_health_attempt_flee:
  "max_health (the_player (outcome_game (attempt_flee d g))) = max_health (the_player g)"
  by (simp add: attempt_flee_def with_enemy_def Let_def add_to_knowledge_base_frame
      split: option.splits)

lemma max_health_resolve_combat:
  "max_health (the_player (outcome_game (resolve_combat won d g))) = max_health (the_player g)"
  by (simp add: resolve_combat_def with_enemy_def Let_def add_to_knowledge_base_frame
      split: option.splits)

lemma max_health_after_player_action:
  "max_health (the_player (outcome_game (after_player_action d g))) = max_health (the_player g)"
  unfolding after_player_action_def
  by (rule max_health_with_enemy)
     (auto intro!: max_health_and_then simp: max_health_resolve_combat max_health_enemy_attack)

lemma max_health_combat_action:
  "combat_action action d g = Some r \<Longrightarrow>
   max_health (the_player (outcome_game r)) = max_health (the_player g)"
  by (auto simp: combat_action_def max_health_player_attack max_health_player_defend
      max_health_attempt_flee split: if_splits)

lemma max_health_combat_turn:
  "max_health (the_player (outcome_game (combat_turn action d g))) = max_health (the_player g)"
proof -
  have body: "max_health (the_player (outcome_game
        (case combat_action action d g6 of
           None \<Rightarrow> Done (print_out s g6)
         | Some r \<Rightarrow> and_then r (after_player_action d)))) = max_health (the_player g)"
    if "max_health (the_player g6) = max_health (the_player g)" for g6 s
  proof (cases "combat_action action d g6")
    case None
    then show ?thesis
      using that by simp
  next
    case (Some r)
    have "max_health (the_player (outcome_game r)) = max_health (the_player g)"
      using max_health_combat_action [OF Some] that by simp
    then have "max_health (the_player (outcome_game (and_then r (after_player_action d)))) =
        max_health (the_player g)"
      by (rule max_health_and_then) (simp add: max_health_after_player_action)
    then show ?thesis
      using Some by simp
  qed
  show ?thesis
    unfolding combat_turn_def Let_def
    apply (rule max_health_with_enemy)
     apply simp
    apply (rule body)
    apply simp
    done
qed

lemma max_health_start_combat:
  "max_health (the_player (outcome_game (start_combat nm d g))) = max_health (the_player g)"
  by (simp add: start_combat_def split: option.splits)

lemma max_health_change_location:
  "max_health (the_player (outcome_game (change_location nm d reply g))) = max_health (the_player g)"
  by (auto simp: change_location_def Let_def dest: generate_ai_response_frame
      split: option.splits sum.splits prod.splits)

lemma max_health_process_response_tags:
  "max_health (the_player (outcome_game (process_response_tags response d reply g))) =
   max_health (the_player g)"
  unfolding process_response_tags_def
  by (intro max_health_and_then)
     (auto simp: Let_def max_health_start_combat max_health_change_location
        add_to_knowledge_base_frame)

lemma max_health_process_player_action:
  "max_health (the_player (outcome_game (process_player_action action ar lr d g))) =
   max_health (the_player g)"
proof (cases "generate_ai_response [] ar (g\<lparr>turn_count := turn_count g + 1\<rparr>)")
  case (Inl err)
  then show ?thesis
    by (simp add: process_player_action_def Let_def)
next
  case (Inr p)
  obtain response g2 where p: "p = (response, g2)"
    by (cases p)
  have t2: "max_health (the_player g2) = max_health (the_player g)"
    using generate_ai_response_frame [OF Inr [unfolded p]] by simp
  have "max_health (the_player (outcome_game (and_then (process_response_tags response d lr g2)
          (\<lambda>g3. Done (print_out (Colors_GREEN @ [newline] @ remove_tags response) g3))))) =
        max_health (the_player g)"
    by (rule max_health_and_then) (simp_all add: max_health_process_response_tags t2)
  then show ?thesis
    using Inr p by (simp add: process_player_action_def Let_def)
qed

lemma max_health_exploration_turn:
  "max_health (the_player (outcome_game (exploration_turn action ar lr d g))) =
   max_health (the_player g)"
  by (simp add: exploration_turn_def Let_def max_health_process_player_action)

lemma max_health_game_loop_step:
  "max_health (the_player (outcome_game (game_loop_step i g))) = max_health (the_player g)"
  by (simp add: game_loop_step_def max_health_combat_turn max_health_exploration_turn)

lemma max_health_game_loop:
  "max_health (the_player (outcome_game (game_loop rounds g))) = max_health (the_player g)"
proof (induction rounds arbitrary: g)
  case Nil
  show ?case by simp
next
  case (Cons i rounds)
  have "max_health (the_player (outcome_game (and_then (game_loop_step i g) (game_loop rounds)))) =
        max_health (the_player g)"
    by (rule max_health_and_then) (simp_all add: max_health_game_loop_step Cons.IH)
  then show ?case
    by simp
qed

subsection \<open>Health between actions\<close>

lemma session_ok_same_core:
  assumes "health (the_player g') = health (the_player g)"
    and "max_health (the_player g') = max_health (the_player g)"
    and "enemies (world_data g') = enemies (world_data g)"
    and "in_combat g' = in_combat g"
    and "current_enemy g' = current_enemy g"
  shows "session_ok g' = session_ok g"
  using assms by (simp add: session_ok_def health_in_range_def templates_alive_def encounter_alive_def)

lemma player_attack_done:
  assumes "player_attack d g = Done g'"
  shows "the_player g' = the_player g \<and> world_data g' = world_data g \<and>
         in_combat g' = in_combat g \<and> current_enemy g' \<noteq> None"
  using assms
  by (auto simp: player_attack_def with_enemy_def Let_def split: option.splits if_splits)

lemma enemy_attack_done:
  assumes "enemy_attack d g = Done g'"
  shows "health (the_player g') < health (the_player g) \<and>
         max_health (the_player g') = max_health (the_player g) \<and>
         world_data g' = world_data g \<and> in_combat g' = in_combat g \<and>
         current_enemy g' = current_enemy g"
  using assms
  by (auto simp: enemy_attack_def with_enemy_def Let_def split: option.splits)

lemma player_defend_done:
  assumes "player_defend d g = Done g'"
  shows "health (the_player g') < max_health (the_player g) \<and>
         max_health (the_player g') = max_health (the_player g) \<and>
         world_data g' = world_data g \<and> in_combat g' = in_combat g \<and>
         current_enemy g' = current_enemy g"
  using assms
  by (auto simp: player_defend_def with_enemy_def Let_def split: option.splits)

lemma attempt_flee_done:
  assumes "attempt_flee d g = Done g'"
  shows "health (the_player g') < health (the_player g) \<and>
         max_health (the_player g') = max_health (the_player g) \<and>
         world_data g' = world_data g \<and> in_combat g' = in_combat g \<and>
         current_enemy g' = current_enemy g"
  using assms
  by (auto simp: attempt_flee_def with_enemy_def Let_def split: option.splits if_splits)

lemma use_item_health:
  assumes "health_in_range g"
  shows "health_in_range (use_item item_name g)"
  using assms parse_heal_amount_nonneg
  by (auto simp: use_item_def health_in_range_def Let_def split: option.splits)

lemma resolve_combat_won_done:
  assumes "resolve_combat True d g = Done g'" and "health_in_range g"
  shows "health_in_range g' \<and> \<not> in_combat g' \<and> world_data g' = world_data g"
  using assms
  by (auto simp: resolve_combat_def with_enemy_def Let_def health_in_range_def
      add_to_knowledge_base_frame split: option.splits if_splits)

lemma resolve_combat_lost_done:
  assumes "resolve_combat False d g = Done g'" and "0 \<le> max_health (the_player g)"
  shows "health_in_range g' \<and> \<not> in_combat g' \<and> world_data g' = world_data g"
  using assms
  by (auto simp: resolve_combat_def with_enemy_def Let_def health_in_range_def
      add_to_knowledge_base_frame split: option.splits if_splits)

lemma after_player_action_done:
  assumes run: "after_player_action d g = Done g'"
    and upper: "health (the_player g) \<le> max_health (the_player g)"
    and max0: "0 \<le> max_health (the_player g)"
    and templates: "templates_alive g"
    and alive: "encounter_alive g \<or> 0 \<le> health (the_player g)"
    and fighting: "in_combat g"
  shows "session_ok g'"
proof -
  obtain e where e: "current_enemy g = Some e"
    using run by (cases "current_enemy g") (simp_all add: after_player_action_def with_enemy_def)
  show ?thesis
  proof (cases "e_health e \<le> 0")
    case True
    then have won: "resolve_combat True d g = Done g'"
      using run e by (simp add: after_player_action_def with_enemy_def)
    have "\<not> encounter_alive g"
      using True e fighting by (simp add: encounter_alive_def)
    then have "health_in_range g"
      using alive upper by (simp add: health_in_range_def)
    then show ?thesis
      using resolve_combat_won_done [OF won] templates
      by (simp add: session_ok_def templates_alive_def encounter_alive_def)
  next
    case False
    then have step: "and_then (enemy_attack d g)
        (\<lambda>g1. if health (the_player g1) \<le> 0 then resolve_combat False d g1 else Done g1) = Done g'"
      using run e by (simp add: after_player_action_def with_enemy_def)
    then obtain g1 where g1: "enemy_attack d g = Done g1"
      and rest: "(if health (the_player g1) \<le> 0 then resolve_combat False d g1 else Done g1) = Done g'"
      by (cases "enemy_attack d g") (simp_all add: and_then_def)
    note ea = enemy_attack_done [OF g1]
    show ?thesis
    proof (cases "health (the_player g1) \<le> 0")
      case True
      then have lost: "resolve_combat False d g1 = Done g'"
        using rest by simp
      have "0 \<le> max_health (the_player g1)"
        using ea max0 by simp
      then show ?thesis
        using resolve_combat_lost_done [OF lost] templates ea
        by (simp add: session_ok_def templates_alive_def encounter_alive_def)
    next
      case pos: False
      then have "g' = g1"
        using rest by simp
      then show ?thesis
        using pos ea upper templates False e
        by (simp add: session_ok_def health_in_range_def templates_alive_def encounter_alive_def)
    qed
  qed
qed

lemma combat_action_done:
  assumes act: "combat_action action d g = Some (Done ga)"
    and ok: "session_ok g"
    and fighting: "in_combat g"
  shows "health (the_player ga) \<le> max_health (the_player ga) \<and>
         0 \<le> max_health (the_player ga) \<and> templates_alive ga \<and>
         (encounter_alive ga \<or> 0 \<le> health (the_player ga)) \<and> in_combat ga"
proof -
  have range: "0 \<le> health (the_player g)" "health (the_player g) \<le> max_health (the_player g)"
    and templates: "list_all (\<lambda>e. 0 < e_health e) (enemies (world_data g))"
    and alive: "encounter_alive g"
    using ok by (simp_all add: session_ok_def health_in_range_def templates_alive_def)
  consider (attack) "player_attack d g = Done ga"
    | (use) item_name where "ga = use_item item_name g"
    | (defend) "player_defend d g = Done ga"
    | (flee) "attempt_flee d g = Done ga"
    using act by (auto simp: combat_action_def split: if_splits)
  then show ?thesis
  proof cases
    case attack
    then show ?thesis
      using player_attack_done [OF attack] range templates fighting
      by (simp add: templates_alive_def)
  next
    case use
    have "health_in_range (use_item item_name g)"
      by (rule use_item_health) (simp add: health_in_range_def range)
    then show ?thesis
      using use range templates fighting
      by (simp add: templates_alive_def health_in_range_def)
  next
    case defend
    then show ?thesis
      using player_defend_done [OF defend] range templates alive fighting
      by (simp add: templates_alive_def encounter_alive_def)
  next
    case flee
    then show ?thesis
      using attempt_flee_done [OF flee] range templates alive fighting
      by (simp add: templates_alive_def encounter_alive_def)
  qed
qed

lemma combat_turn_done:
  assumes run: "combat_turn action d g = Done g'"
    and ok: "session_ok g"
    and fighting: "in_combat g"
  shows "session_ok g'"
proof -
  obtain e where e: "current_enemy g = Some e"
    using run by (cases "current_enemy g") (simp_all add: combat_turn_def with_enemy_def Let_def)
  define g6 where "g6 =
     print_out (Colors_BOLD @ ''What will you do? > '')
       (print_out (Colors_GREY @ [newline] @ ''Combat options: attack, use [item], defend, flee'')
         (print_out (Colors_RED @ replicate 40 (CHR ''-''))
           (print_out (Colors_RED @ ''ENEMY HEALTH: '' @ str_int (e_health e))
             (print_out (Colors_RED @ ''YOUR HEALTH: '' @ str_int (health (the_player g)) @ ''/''
                 @ str_int (max_health (the_player g)))
               (print_out (Colors_RED @ [newline] @ replicate 40 (CHR ''-'')) g)))))"
  have ok6: "session_ok g6" and in6: "in_combat g6"
    using ok fighting unfolding g6_def
    by (simp_all add: session_ok_def health_in_range_def templates_alive_def encounter_alive_def)
  have turn: "combat_turn action d g =
      (case combat_action action d g6 of
         None \<Rightarrow> Done (print_out (Colors_RED @ ''Invalid combat action. Try again.'') g6)
       | Some r \<Rightarrow> and_then r (after_player_action d))"
    unfolding combat_turn_def Let_def with_enemy_def g6_def
    by (simp only: print_out_frame e option.case)
  show ?thesis
  proof (cases "combat_action action d g6")
    case None
    then have "g' = print_out (Colors_RED @ ''Invalid combat action. Try again.'') g6"
      using run unfolding turn by simp
    then show ?thesis
      using ok6
      by (simp add: session_ok_def health_in_range_def templates_alive_def encounter_alive_def)
  next
    case (Some r)
    then have rest: "and_then r (after_player_action d) = Done g'"
      using run unfolding turn by simp
    then obtain ga where ga: "r = Done ga" and after: "after_player_action d ga = Done g'"
      by (cases r) (simp_all add: and_then_def)
    note facts = combat_action_done [OF Some [unfolded ga] ok6 in6]
    show ?thesis
      using facts by (intro after_player_action_done [OF after]) simp_all
  qed
qed

lemma randint_lower: "randint a b r = Some x \<Longrightarrow> a \<le> x \<and> x \<le> b"
proof -
  assume h: "randint a b r = Some x"
  then have ab: "a \<le> b" and x: "x = a + int (r mod nat (b - a + 1))"
    by (simp_all add: randint_def split: if_splits)
  have "r mod nat (b - a + 1) < nat (b - a + 1)"
    using ab by simp
  then have "int (r mod nat (b - a + 1)) < b - a + 1"
    using ab by linarith
  then show ?thesis
    using x by simp
qed

lemma find_Some_holds: "find P xs = Some x \<Longrightarrow> x \<in> set xs"
  by (induction xs) (auto split: if_splits)

lemma start_combat_done:
  assumes run: "start_combat enemy_name d g = Done g'" and ok: "session_ok g"
  shows "session_ok g'"
proof (cases "find (\<lambda>e. lower (e_name e) = lower enemy_name) (enemies (world_data g))")
  case None
  then obtain difficulty where
    dr: "randint 1 (min 10 (turn_count g div 5 + 1)) (roll_difficulty d) = Some difficulty"
    and g': "g' = enter_combat (synthesize_enemy enemy_name difficulty) g"
    using run by (auto simp: start_combat_def split: option.splits)
  have "1 \<le> difficulty"
    using randint_lower [OF dr] by simp
  then have "0 < e_health (synthesize_enemy enemy_name difficulty)"
    by (simp add: synthesize_enemy_def)
  then show ?thesis
    using ok unfolding g'
    by (simp add: session_ok_def health_in_range_def templates_alive_def encounter_alive_def)
next
  case (Some e)
  then have g': "g' = enter_combat e g"
    using run by (simp add: start_combat_def)
  have "e \<in> set (enemies (world_data g))"
    using Some by (rule find_Some_holds)
  then have "0 < e_health e"
    using ok by (simp add: session_ok_def templates_alive_def list_all_iff)
  then show ?thesis
    using ok unfolding g'
    by (simp add: session_ok_def health_in_range_def templates_alive_def encounter_alive_def)
qed

lemma find_item_ok: "session_ok (find_item item_name g) = session_ok g"
  by (rule session_ok_same_core) simp_all

lemma add_to_knowledge_base_ok: "session_ok (add_to_knowledge_base event g) = session_ok g"
  by (rule session_ok_same_core) (simp_all add: add_to_knowledge_base_frame)

lemma print_out_ok: "session_ok (print_out s g) = session_ok g"
  by (rule session_ok_same_core) simp_all

lemma change_location_done:
  assumes run: "change_location location_name d reply g = Done g'"
  shows "session_ok g' = session_ok g"
proof (rule session_ok_same_core)
  show "health (the_player g') = health (the_player g)"
    using run by (auto simp: change_location_def Let_def dest: generate_ai_response_frame
        split: option.splits sum.splits prod.splits)
  show "max_health (the_player g') = max_health (the_player g)"
    using run by (auto simp: change_location_def Let_def dest: generate_ai_response_frame
        split: option.splits sum.splits prod.splits)
  show "enemies (world_data g') = enemies (world_data g)"
    using run by (auto simp: change_location_def Let_def dest: generate_ai_response_frame
        split: option.splits sum.splits prod.splits)
  show "in_combat g' = in_combat g"
    using run by (auto simp: change_location_def Let_def dest: generate_ai_response_frame
        split: option.splits sum.splits prod.splits)
  show "current_enemy g' = current_enemy g"
    using run by (auto simp: change_location_def Let_def dest: generate_ai_response_frame
        split: option.splits sum.splits prod.splits)
qed

lemma and_then_done:
  "and_then r f = Done g' \<Longrightarrow> \<exists>g1. r = Done g1 \<and> f g1 = Done g'"
  by (cases r) (simp_all add: and_then_def)

lemma process_response_tags_done:
  assumes run: "process_response_tags response d reply g = Done g'" and ok: "session_ok g"
  shows "session_ok g'"
proof -
  obtain g1 g2 g3 where
    s1: "(if str_contains ''[COMBAT]'' response
          then (let parts = split response ''[COMBAT]''
                in if length parts > 1 then start_combat (tag_payload parts) d g else Done g)
          else Done g) = Done g1"
    and s2: "(if str_contains ''[ITEM]'' response
          then (let parts = split response ''[ITEM]''
                in if length parts > 1 then Done (find_item (tag_payload parts) g1) else Done g1)
          else Done g1) = Done g2"
    and s3: "(if str_contains ''[LOCATION]'' response
          then (let parts = split response ''[LOCATION]''
                in if length parts > 1 then change_location (tag_payload parts) d reply g2 else Done g2)
          else Done g2) = Done g3"
    and s4: "(if str_contains ''[EVENT]'' response
          then (let parts = split response ''[EVENT]''
                in if length parts > 1 then Done (add_to_knowledge_base (tag_payload parts) g3) else Done g3)
          else Done g3) = Done g'"
    using run unfolding process_response_tags_def
    by (blast dest: and_then_done)
  have ok1: "session_ok g1"
    using s1 ok by (auto simp: Let_def split: if_splits dest: start_combat_done)
  have ok2: "session_ok g2"
    using s2 ok1 by (auto simp: Let_def find_item_ok split: if_splits)
  have ok3: "session_ok g3"
    using s3 ok2 by (auto simp: Let_def split: if_splits dest: change_location_done)
  show ?thesis
    using s4 ok3 by (auto simp: Let_def add_to_knowledge_base_ok split: if_splits)
qed

lemma generate_ai_response_ok:
  "generate_ai_response ks reply g = Inr (text, g') \<Longrightarrow> session_ok g' = session_ok g"
  by (rule session_ok_same_core) (simp_all add: generate_ai_response_frame)

lemma process_player_action_done:
  assumes run: "process_player_action action ar lr d g = Done g'" and ok: "session_ok g"
  shows "session_ok g'"
proof -
  let ?g1 = "g\<lparr>turn_count := turn_count g + 1\<rparr>"
  have ok1: "session_ok ?g1"
    using ok by (simp add: session_ok_def health_in_range_def templates_alive_def encounter_alive_def)
  obtain response g2 where gen: "generate_ai_response [] ar ?g1 = Inr (response, g2)"
    using run by (cases "generate_ai_response [] ar ?g1")
      (auto simp: process_player_action_def Let_def)
  have ok2: "session_ok g2"
    using generate_ai_response_ok [OF gen] ok1 by simp
  have "and_then (process_response_tags response d lr g2)
      (\<lambda>g3. Done (print_out (Colors_GREEN @ [newline] @ remove_tags response) g3)) = Done g'"
    using run gen by (simp add: process_player_action_def Let_def)
  then obtain g3 where tags: "process_response_tags response d lr g2 = Done g3"
    and g': "g' = print_out (Colors_GREEN @ [newline] @ remove_tags response) g3"
    by (auto dest: and_then_done)
  have "session_ok g3"
    using tags ok2 by (rule process_response_tags_done)
  then show ?thesis
    unfolding g' by (simp add: print_out_ok)
qed

lemma exploration_turn_done:
  assumes run: "exploration_turn action ar lr d g = Done g'" and ok: "session_ok g"
  shows "session_ok g'"
proof -
  let ?g1 = "print_out (Colors_CYAN @ [newline] @ ''What would you like to do? > '') g"
  have ok1: "session_ok ?g1"
    using ok by (simp add: print_out_ok)
  have "g' = ?g1 \<or> process_player_action action ar lr d ?g1 = Done g'"
    using run by (simp add: exploration_turn_def Let_def split: if_splits)
  then show ?thesis
    using ok1 process_player_action_done by blast
qed

lemma game_loop_step_done:
  assumes run: "game_loop_step i g = Done g'" and ok: "session_ok g"
  shows "session_ok g'"
proof (cases "in_combat g")
  case True
  then have "combat_turn (typed i) (rolls i) g = Done g'"
    using run by (simp add: game_loop_step_def)
  then show ?thesis
    using ok True by (rule combat_turn_done)
next
  case False
  then have "exploration_turn (typed i) (action_reply i) (location_reply i) (rolls i) g = Done g'"
    using run by (simp add: game_loop_step_def)
  then show ?thesis
    using ok by (rule exploration_turn_done)
qed

lemma game_loop_done:
  assumes "game_loop rounds g = Done g'" and "session_ok g"
  shows "session_ok g'"
  using assms
proof (induction rounds arbitrary: g)
  case Nil
  then show ?case by simp
next
  case (Cons i rounds)
  obtain g1 where step: "game_loop_step i g = Done g1" and rest: "game_loop rounds g1 = Done g'"
    using Cons.prems(1) by (auto dest: and_then_done)
  have "session_ok g1"
    using step Cons.prems(2) by (rule game_loop_step_done)
  then show ?case
    using Cons.IH [OF rest] by simp
qed

lemma new_session_ok:
  assumes "list_all (\<lambda>e. 0 < e_health e) (enemies w)"
  shows "session_ok (new_session w player_name start_location)"
  using assms
  by (simp add: session_ok_def health_in_range_def templates_alive_def encounter_alive_def
      new_session_def initial_game_def)

lemma new_session_max_health:
  "max_health (the_player (new_session w player_name start_location)) = 100"
  by (simp add: new_session_def initial_game_def)

text \<open>
  A session whose registry holds an enemy template with health 0 and attack 1000. The
  first round starts combat with it; in the second the player defends: the hit inside
  \<open>player_defend\<close> takes 332 of the 100 health, the victory check comes before any
  look at the player's health, and the victory heals 10. The turn returns, combat is
  over, and the health is negative.
\<close>

theorem health_negative_between_actions_counterexample:
  "returns (game_loop [example_round ''look around'' ''A ghost appears. [COMBAT] Ghost'',
                       example_round ''defend'' []]
     (new_session (example_world [example_ghost]) ''Hero'' ''Starting Village'')) \<and>
   \<not> in_combat (outcome_game (game_loop [example_round ''look around'' ''A ghost appears. [COMBAT] Ghost'',
                       example_round ''defend'' []]
     (new_session (example_world [example_ghost]) ''Hero'' ''Starting Village''))) \<and>
   health (the_player (outcome_game (game_loop [example_round ''look around'' ''A ghost appears. [COMBAT] Ghost'',
                       example_round ''defend'' []]
     (new_session (example_world [example_ghost]) ''Hero'' ''Starting Village'')))) = - 222 \<and>
   \<not> health_in_range (outcome_game (game_loop [example_round ''look around'' ''A ghost appears. [COMBAT] Ghost'',
                       example_round ''defend'' []]
     (new_session (example_world [example_ghost]) ''Hero'' ''Starting Village'')))"
  by code_simp

text \<open>
  C9, as amended. In a session whose enemy templates all have positive health, after
  every round of the game loop that returns the player's health lies between 0 and
  \<open>max_health\<close>, and \<open>max_health\<close> is the 100 of the player's creation. No run
  of the loop, from any state and whether it returns or raises, changes
  \<open>max_health\<close>.
\<close>

theorem health_in_range_between_actions:
  assumes templates: "list_all (\<lambda>e. 0 < e_health e) (enemies w)"
    and run: "game_loop rounds (new_session w player_name start_location) = Done g'"
  shows "0 \<le> health (the_player g') \<and> health (the_player g') \<le> max_health (the_player g') \<and>
         max_health (the_player g') = 100 \<and>
         max_health (the_player (outcome_game (game_loop rounds0 g0))) = max_health (the_player g0)"
proof -
  have "session_ok g'"
    using run new_session_ok [OF templates] by (rule game_loop_done)
  then have range: "0 \<le> health (the_player g')" "health (the_player g') \<le> max_health (the_player g')"
    by (simp_all add: session_ok_def health_in_range_def)
  have "max_health (the_player g') =
      max_health (the_player (new_session w player_name start_location))"
    using max_health_game_loop [of rounds "new_session w player_name start_location"] run by simp
  then have "max_health (the_player g') = 100"
    by (simp add: new_session_max_health)
  then show ?thesis
    using range max_health_game_loop [of rounds0 g0] by simp
qed

theorem health_in_range_between_actions_witness:
  "list_all (\<lambda>e. 0 < e_health e) (enemies (example_world [example_wolf])) \<and>
   returns (game_loop [example_round ''look around'' ''A wolf appears. [COMBAT] Wolf'',
                       example_round ''defend'' [], example_round ''attack'' []]
     (new_session (example_world [example_wolf]) ''Hero'' ''Starting Village'')) \<and>
   0 \<le> health (the_player (outcome_game
     (game_loop [example_round ''look around'' ''A wolf appears. [COMBAT] Wolf'',
                 example_round ''defend'' [], example_round ''attack'' []]
       (new_session (example_world [example_wolf]) ''Hero'' ''Starting Village'')))) \<and>
   health (the_player (outcome_game
     (game_loop [example_round ''look around'' ''A wolf appears. [COMBAT] Wolf'',
                 example_round ''defend'' [], example_round ''attack'' []]
       (new_session (example_world [example_wolf]) ''Hero'' ''Starting Village'')))) \<le> 100"
proof -
  let ?run = "game_loop [example_round ''look around'' ''A wolf appears. [COMBAT] Wolf'',
                 example_round ''defend'' [], example_round ''attack'' []]
       (new_session (example_world [example_wolf]) ''Hero'' ''Starting Village'')"
  have t: "list_all (\<lambda>e. 0 < e_health e) (enemies (example_world [example_wolf]))"
    by code_simp
  have r: "returns ?run"
    by code_simp
  then have d: "?run = Done (outcome_game ?run)"
    by (cases ?run) simp_all
  note h = health_in_range_between_actions [OF t d]
  have lo: "0 \<le> health (the_player (outcome_game ?run))"
    by (rule h [THEN conjunct1])
  have "health (the_player (outcome_game ?run)) \<le> max_health (the_player (outcome_game ?run))"
    by (rule h [THEN conjunct2, THEN conjunct1])
  also have "\<dots> = 100"
    by (rule h [THEN conjunct2, THEN conjunct2, THEN conjunct1])
  finally have hi: "health (the_player (outcome_game ?run)) \<le> 100" .
  show ?thesis
    by (intro conjI t r lo hi)
qed

subsection \<open>Every defend turn\<close>

text \<open>
  Whenever a defend turn returns with the combat still on, the player has lost at least
  two points against the health the defend action healed to: one at least to the hit
  inside \<open>player_defend\<close>, one at least to the enemy attack that follows it.
\<close>

lemma resolve_combat_leaves_combat:
  "resolve_combat won d g = Done g' \<Longrightarrow> \<not> in_combat g'"
  by (auto simp: resolve_combat_def with_enemy_def Let_def add_to_knowledge_base_frame
      split: option.splits if_splits)

lemma player_defend_health:
  assumes "player_defend d g = Done g'"
  shows "health (the_player g') \<le>
           min (max_health (the_player g)) (health (the_player g) + max_health (the_player g) div 20) - 1"
  using assms
  by (auto simp: player_defend_def with_enemy_def Let_def split: option.splits)

lemma defend_is_player_defend:
  "combat_action ''defend'' d g = Some (player_defend d g)"
proof -
  have "lower ''defend'' = ''defend''"
    by code_simp
  moreover have "''defend'' \<notin> set [''attack'', ''a'']" "\<not> startswith ''defend'' ''use ''"
    "''defend'' \<in> set [''defend'', ''d'']"
    by code_simp+
  ultimately show ?thesis
    unfolding combat_action_def by (simp only: if_True if_False)
qed

lemma defend_turn_second_hit:
  assumes run: "combat_turn ''defend'' d g = Done g'" and goes_on: "in_combat g'"
  shows "health (the_player g') \<le>
           min (max_health (the_player g)) (health (the_player g) + max_health (the_player g) div 20) - 2"
proof -
  obtain e where e: "current_enemy g = Some e"
    using run by (cases "current_enemy g") (simp_all add: combat_turn_def with_enemy_def Let_def)
  define g6 where "g6 =
     print_out (Colors_BOLD @ ''What will you do? > '')
       (print_out (Colors_GREY @ [newline] @ ''Combat options: attack, use [item], defend, flee'')
         (print_out (Colors_RED @ replicate 40 (CHR ''-''))
           (print_out (Colors_RED @ ''ENEMY HEALTH: '' @ str_int (e_health e))
             (print_out (Colors_RED @ ''YOUR HEALTH: '' @ str_int (health (the_player g)) @ ''/''
                 @ str_int (max_health (the_player g)))
               (print_out (Colors_RED @ [newline] @ replicate 40 (CHR ''-'')) g)))))"
  have p6: "the_player g6 = the_player g"
    unfolding g6_def by simp
  have turn: "combat_turn ''defend'' d g = and_then (player_defend d g6) (after_player_action d)"
    unfolding combat_turn_def Let_def with_enemy_def g6_def
    by (simp only: print_out_frame e option.case defend_is_player_defend)
  obtain ga where ga: "player_defend d g6 = Done ga" and after: "after_player_action d ga = Done g'"
    using run unfolding turn by (auto dest: and_then_done)
  have first: "health (the_player ga) \<le>
      min (max_health (the_player g)) (health (the_player g) + max_health (the_player g) div 20) - 1"
    using player_defend_health [OF ga] by (simp add: p6)
  obtain e' where e': "current_enemy ga = Some e'"
    using after by (cases "current_enemy ga") (simp_all add: after_player_action_def with_enemy_def)
  have "\<not> e_health e' \<le> 0"
    using after e' goes_on resolve_combat_leaves_combat
    by (auto simp: after_player_action_def with_enemy_def)
  then obtain g1 where g1: "enemy_attack d ga = Done g1"
    and rest: "(if health (the_player g1) \<le> 0 then resolve_combat False d g1 else Done g1) = Done g'"
    using after e' by (auto simp: after_player_action_def with_enemy_def dest: and_then_done)
  have "g' = g1"
    using rest goes_on resolve_combat_leaves_combat by (auto split: if_splits)
  then have "health (the_player g') < health (the_player ga)"
    using enemy_attack_done [OF g1] by simp
  then show ?thesis
    using first by linarith
qed

end
